theory Spec2Isabelle
  imports Complex_Main
begin

section \<open>Data model\<close>

text \<open>
  JavaScript numbers are modelled as real numbers: rounding, NaN and the infinities of
  IEEE-754 are outside the model. A \<open>LocalPoint\<close> is the pair of its two coordinates.
  A field that may hold \<open>null\<close> or \<open>undefined\<close> is an \<open>option\<close>.
\<close>

type_synonym point = "real \<times> real"

text \<open>The type tag of an element (\<open>element.type\<close>), a closed union of string literals.\<close>

datatype elementType =
    Rectangle | Diamond | Ellipse | Line | Arrow | Freedraw | Iframe | Embeddable
  | Frame | Magicframe | Text | Image | Cube | RectangularPrism | Selection

datatype strokeStyle = Solid | Dashed | Dotted

text \<open>The arrowhead kinds (\<open>Arrowhead\<close>), with the prefix \<open>Head_\<close>.\<close>

datatype arrowhead =
    Head_arrow | Head_bar | Head_dot | Head_circle | Head_circle_outline
  | Head_triangle | Head_triangle_outline | Head_diamond | Head_diamond_outline
  | Head_crowfoot_one | Head_crowfoot_many | Head_crowfoot_one_or_many

datatype position = Start | End

text \<open>\<open>element.roundness\<close> is \<open>null\<close> or an object \<open>{type, value?}\<close>.\<close>

record roundness =
  roundness_type :: nat
  roundness_value :: "real option"

text \<open>\<open>element.customData?.shape3d\<close>: every field is optional.\<close>

record shape3d =
  depth :: "real option"
  rotationX :: "real option"
  rotationY :: "real option"
  rotationZ :: "real option"

text \<open>
  The fields of an element that the modelled functions read. \<open>startArrowhead\<close> and
  \<open>endArrowhead\<close> are \<open>None\<close> when the property is \<open>undefined\<close>, \<open>Some None\<close> when
  it is \<open>null\<close>.
\<close>

record element =
  elem_id :: string
  etype :: elementType
  width :: real
  height :: real
  strokeColor :: string
  backgroundColor :: string
  fillStyle :: string
  strokeWidth :: real
  strokeStyle :: strokeStyle
  roughness :: real
  seed :: int
  roundness :: "roundness option"
  points :: "point list"
  startArrowhead :: "arrowhead option option"
  endArrowhead :: "arrowhead option option"
  shape3d :: "shape3d option"

text \<open>
  The style options of roughjs (\<open>Options\<close>): every property is optional. A property
  that is absent and a property set to \<open>undefined\<close> are both \<open>None\<close>.
\<close>

record options =
  o_seed :: "int option"
  o_strokeLineDash :: "real list option"
  o_disableMultiStroke :: "bool option"
  o_disableMultiStrokeFill :: "bool option"
  o_strokeWidth :: "real option"
  o_fillWeight :: "real option"
  o_hachureGap :: "real option"
  o_roughness :: "real option"
  o_stroke :: "string option"
  o_preserveVertices :: "bool option"
  o_fillStyle :: "string option"
  o_fill :: "string option"
  o_curveFitting :: "real option"

text \<open>
  A path description. The source builds an SVG path string; the model keeps its
  commands and their numeric arguments, not the decimal text of the numbers.
\<close>

datatype pathCmd =
    M real real
  | L real real
  | Q real real real real
  | C real real real real real real
  | Z

text \<open>
  A \<open>Drawable\<close> of roughjs. The generator is an external collaborator, so a drawable is
  the record of the generator call that made it: the constructor is the method, the
  arguments are the arguments. The generator copies the options it is given
  (\<open>Object.assign\<close>), so a drawable holds the options as they were at the call.
\<close>

datatype drawable =
    Gen_path "pathCmd list" options
  | Gen_rectangle real real real real options
  | Gen_polygon "point list" options
  | Gen_ellipse real real real real options
  | Gen_linearPath "point list" options
  | Gen_curve "point list" options
  | Gen_line real real real real options
  | Gen_circle real real real options

text \<open>The field \<open>options\<close> of a drawable.\<close>

fun drawableOptions :: "drawable \<Rightarrow> options" where
  "drawableOptions (Gen_path d opts) = opts"
| "drawableOptions (Gen_rectangle x y w h opts) = opts"
| "drawableOptions (Gen_polygon ps opts) = opts"
| "drawableOptions (Gen_ellipse x y w h opts) = opts"
| "drawableOptions (Gen_linearPath ps opts) = opts"
| "drawableOptions (Gen_curve ps opts) = opts"
| "drawableOptions (Gen_line x1 y1 x2 y2 opts) = opts"
| "drawableOptions (Gen_circle x y d opts) = opts"

text \<open>
  The collaborators imported from modules that are not part of the modelled file
  (\<open>typeChecks\<close>, \<open>utils\<close>, \<open>heading\<close>, \<open>bounds\<close>, \<open>@excalidraw/math\<close>,
  \<open>@excalidraw/common\<close>, \<open>points-on-curve\<close>). Every function of the model takes them
  as a parameter, so a theorem holds whatever they compute.
\<close>

record externals =
  isTransparent :: "string \<Rightarrow> bool"
  isLinearElement :: "element \<Rightarrow> bool"
  isElbowArrow :: "element \<Rightarrow> bool"
  isIframeLikeElement :: "element \<Rightarrow> bool"
  isEmbeddableElement :: "element \<Rightarrow> bool"
  isIframeElement :: "element \<Rightarrow> bool"
  isPathALoop :: "point list \<Rightarrow> bool"
  canBecomePolygon :: "point list \<Rightarrow> bool"
  getCornerRadius :: "real \<Rightarrow> element \<Rightarrow> real"
  getDiamondPoints :: "element \<Rightarrow> real list"
  getArrowheadPoints :: "element \<Rightarrow> drawable list \<Rightarrow> position \<Rightarrow> arrowhead \<Rightarrow> real list option"
  simplify :: "point list \<Rightarrow> real \<Rightarrow> point list"
  headingForPointIsHorizontal :: "point \<Rightarrow> point \<Rightarrow> bool"
  pointDistance :: "point \<Rightarrow> point \<Rightarrow> real"
  ROUGHNESS_cartoonist :: real
  LINE_POLYGON_POINT_MERGE_DISTANCE :: real
  COLOR_PALETTE_white :: string

section \<open>Roughness adjuster\<close>

text \<open>\<open>canChangeRoundness\<close> of \<open>comparisons.ts\<close>.\<close>

definition canChangeRoundness :: "elementType \<Rightarrow> bool" where
  "canChangeRoundness t =
     (t = Rectangle \<or> t = Iframe \<or> t = Embeddable \<or> t = Line \<or> t = Diamond \<or>
      t = Image \<or> t = Cube \<or> t = RectangularPrism)"

text \<open>\<open>adjustRoughness\<close>: \<open>!!element.roundness\<close> is true when the descriptor is an object.\<close>

definition adjustRoughness :: "externals \<Rightarrow> element \<Rightarrow> real" where
  "adjustRoughness ext el =
     (let maxSize = max (width el) (height el);
          minSize = min (width el) (height el)
      in if (minSize \<ge> 20 \<and> maxSize \<ge> 50) \<or>
            (minSize \<ge> 15 \<and> roundness el \<noteq> None \<and> canChangeRoundness (etype el)) \<or>
            (isLinearElement ext el \<and> maxSize \<ge> 50)
         then roughness el
         else min (roughness el / (if maxSize < 10 then 3 else 2)) 2.5)"


section \<open>Rough-option builder\<close>

text \<open>What the modelled functions throw.\<close>

datatype error =
    Unimplemented_type elementType
  | TypeError

definition getDashArrayDashed :: "real \<Rightarrow> real list" where
  "getDashArrayDashed sw = [8, 8 + sw]"

definition getDashArrayDotted :: "real \<Rightarrow> real list" where
  "getDashArrayDotted sw = [1.5, 6 + sw]"

text \<open>
  \<open>generateRoughOptions\<close>: the object literal first, then the \<open>switch\<close> on the type; the
  \<open>default\<close> branch throws.
\<close>

definition generateRoughOptions :: "externals \<Rightarrow> element \<Rightarrow> bool \<Rightarrow> error + options" where
  "generateRoughOptions ext el continuousPath =
     (let opts = \<lparr>
            o_seed = Some (seed el),
            o_strokeLineDash =
              (if strokeStyle el = Dashed then Some (getDashArrayDashed (strokeWidth el))
               else if strokeStyle el = Dotted then Some (getDashArrayDotted (strokeWidth el))
               else None),
            o_disableMultiStroke = Some (strokeStyle el \<noteq> Solid),
            o_disableMultiStrokeFill = None,
            o_strokeWidth =
              Some (if strokeStyle el \<noteq> Solid then strokeWidth el + 0.5 else strokeWidth el),
            o_fillWeight = Some (strokeWidth el / 2),
            o_hachureGap = Some (strokeWidth el * 4),
            o_roughness = Some (adjustRoughness ext el),
            o_stroke = Some (strokeColor el),
            o_preserveVertices =
              Some (continuousPath \<or> roughness el < ROUGHNESS_cartoonist ext),
            o_fillStyle = None,
            o_fill = None,
            o_curveFitting = None \<rparr>;
          t = etype el
      in if t = Rectangle \<or> t = Iframe \<or> t = Embeddable \<or> t = Diamond \<or> t = Ellipse then
           (let opts1 = opts\<lparr> o_fillStyle := Some (fillStyle el),
                  o_fill := (if isTransparent ext (backgroundColor el) then None
                             else Some (backgroundColor el)) \<rparr>
            in Inr (if t = Ellipse then opts1\<lparr> o_curveFitting := Some 1 \<rparr> else opts1))
         else if t = Cube \<or> t = RectangularPrism then
           Inr (if \<not> isTransparent ext (backgroundColor el)
                then opts\<lparr> o_fillStyle := Some (fillStyle el),
                       o_fill := Some (backgroundColor el) \<rparr>
                else opts)
         else if t = Line \<or> t = Freedraw then
           Inr (if isPathALoop ext (points el)
                then opts\<lparr> o_fillStyle := Some (fillStyle el),
                       o_fill := (if backgroundColor el = ''transparent'' then None
                                  else Some (backgroundColor el)) \<rparr>
                else opts)
         else if t = Arrow then Inr opts
         else Inl (Unimplemented_type t))"

section \<open>Iframe-like substitution\<close>

text \<open>
  Elements are objects held by reference. The store lists the objects in memory; a
  reference is an index into it. An object spread \<open>{...element, ...}\<close> allocates a new
  object at the end of the store.
\<close>

type_synonym store = "element list"

definition alloc :: "'a list \<Rightarrow> 'a \<Rightarrow> 'a list \<times> nat" where
  "alloc st v = (st @ [v], length st)"

text \<open>\<open>embedsValidationStatus\<close> is \<open>null\<close> or a \<open>Map\<close> from element id to boolean.\<close>

type_synonym embedsValidationStatus = "(string \<rightharpoonup> bool) option"

text \<open>
  \<open>modifyIframeLikeForRoughOptions\<close> returns a reference: to a new object in the first
  two branches, to the element it was given in the last.
\<close>

definition modifyIframeLikeForRoughOptions ::
  "externals \<Rightarrow> store \<Rightarrow> nat \<Rightarrow> bool \<Rightarrow> embedsValidationStatus \<Rightarrow> store \<times> nat" where
  "modifyIframeLikeForRoughOptions ext st r isExporting evs =
     (let el = st ! r in
      if isIframeLikeElement ext el \<and>
         (isExporting \<or>
          (isEmbeddableElement ext el \<and>
           (case evs of None \<Rightarrow> None | Some m \<Rightarrow> m (elem_id el)) \<noteq> Some True)) \<and>
         isTransparent ext (backgroundColor el) \<and>
         isTransparent ext (strokeColor el)
      then alloc st (el\<lparr> roughness := 0, backgroundColor := ''#d3d3d3'',
                          fillStyle := ''solid'' \<rparr>)
      else if isIframeElement ext el
      then alloc st (el\<lparr>
             strokeColor := (if isTransparent ext (strokeColor el) then ''#000000''
                             else strokeColor el),
             backgroundColor := (if isTransparent ext (backgroundColor el) then ''#f4f4f6''
                                 else backgroundColor el) \<rparr>)
      else (st, r))"

section \<open>Arrowhead geometry\<close>

text \<open>
  The array returned by \<open>getArrowheadPoints\<close> is destructured by position. Its length
  depends on the arrowhead kind and is fixed by the collaborator; no theorem below
  depends on the coordinates read from it.
\<close>

definition generateCrowfootOne :: "real list option \<Rightarrow> options \<Rightarrow> drawable list" where
  "generateCrowfootOne arrowheadPoints opts =
     (case arrowheadPoints of
        None \<Rightarrow> []
      | Some ps \<Rightarrow> [Gen_line (ps ! 2) (ps ! 3) (ps ! 4) (ps ! 5) opts])"

text \<open>\<open>options.roughness || 0\<close>\<close>

definition roughnessOrZero :: "options \<Rightarrow> real" where
  "roughnessOrZero opts = (case o_roughness opts of None \<Rightarrow> 0 | Some r \<Rightarrow> r)"

text \<open>
  \<open>getArrowheadShapes\<close> receives the options object by reference and changes it in some
  branches (\<open>delete options.strokeLineDash\<close>, assignments to \<open>options.strokeLineDash\<close> and
  \<open>options.roughness\<close>). The model returns the options object as it is after the call,
  next to the drawables. A spread \<open>{...options, ...}\<close> is a new object and leaves
  \<open>options\<close> as it is.
\<close>

definition getArrowheadShapes ::
  "externals \<Rightarrow> element \<Rightarrow> drawable list \<Rightarrow> position \<Rightarrow> arrowhead \<Rightarrow> options \<Rightarrow> string
     \<Rightarrow> options \<times> drawable list" where
  "getArrowheadShapes ext el shape pos ah opts canvasBackgroundColor =
     (case getArrowheadPoints ext el shape pos ah of
        None \<Rightarrow> (opts, [])
      | Some ps \<Rightarrow>
          if ah = Head_dot \<or> ah = Head_circle \<or> ah = Head_circle_outline then
            (let opts1 = opts\<lparr> o_strokeLineDash := None \<rparr>
             in (opts1,
                 [Gen_circle (ps ! 0) (ps ! 1) (ps ! 2)
                    (opts1\<lparr> o_fill := Some (if ah = Head_circle_outline
                                               then canvasBackgroundColor else strokeColor el),
                            o_fillStyle := Some ''solid'',
                            o_stroke := Some (strokeColor el),
                            o_roughness := Some (min 0.5 (roughnessOrZero opts1)) \<rparr>)]))
          else if ah = Head_triangle \<or> ah = Head_triangle_outline then
            (let opts1 = opts\<lparr> o_strokeLineDash := None \<rparr>
             in (opts1,
                 [Gen_polygon
                    [(ps ! 0, ps ! 1), (ps ! 2, ps ! 3), (ps ! 4, ps ! 5), (ps ! 0, ps ! 1)]
                    (opts1\<lparr> o_fill := Some (if ah = Head_triangle_outline
                                               then canvasBackgroundColor else strokeColor el),
                            o_fillStyle := Some ''solid'',
                            o_roughness := Some (min 1 (roughnessOrZero opts1)) \<rparr>)]))
          else if ah = Head_diamond \<or> ah = Head_diamond_outline then
            (let opts1 = opts\<lparr> o_strokeLineDash := None \<rparr>
             in (opts1,
                 [Gen_polygon
                    [(ps ! 0, ps ! 1), (ps ! 2, ps ! 3), (ps ! 4, ps ! 5), (ps ! 6, ps ! 7),
                     (ps ! 0, ps ! 1)]
                    (opts1\<lparr> o_fill := Some (if ah = Head_diamond_outline
                                               then canvasBackgroundColor else strokeColor el),
                            o_fillStyle := Some ''solid'',
                            o_roughness := Some (min 1 (roughnessOrZero opts1)) \<rparr>)]))
          else if ah = Head_crowfoot_one then
            (opts, generateCrowfootOne (Some ps) opts)
          else
            (let opts1 =
                   (if strokeStyle el = Dotted
                    then (let dash = getDashArrayDotted (strokeWidth el - 1)
                          in opts\<lparr> o_strokeLineDash := Some [dash ! 0, dash ! 1 - 1] \<rparr>)
                    else opts\<lparr> o_strokeLineDash := None \<rparr>);
                 opts2 = opts1\<lparr> o_roughness := Some (min 1 (roughnessOrZero opts1)) \<rparr>
             in (opts2,
                 [Gen_line (ps ! 2) (ps ! 3) (ps ! 0) (ps ! 1) opts2,
                  Gen_line (ps ! 4) (ps ! 5) (ps ! 0) (ps ! 1) opts2] @
                 (if ah = Head_crowfoot_one_or_many
                  then generateCrowfootOne
                         (getArrowheadPoints ext el shape pos Head_crowfoot_one) opts2
                  else []))))"

section \<open>Elbow path builder\<close>

text \<open>
  The body of the first loop of \<open>generateElbowArrowShape\<close> for one interior vertex: the
  three points it pushes to \<open>subpoints\<close>. \<open>elbowCorner\<close> is the constant \<open>corner\<close>.
\<close>

definition elbowCorner :: "externals \<Rightarrow> real \<Rightarrow> point \<Rightarrow> point \<Rightarrow> point \<Rightarrow> real" where
  "elbowCorner ext radius prev pt nxt =
     min radius (min (pointDistance ext pt nxt / 2) (pointDistance ext pt prev / 2))"

definition cornerSubpoints :: "externals \<Rightarrow> real \<Rightarrow> point \<Rightarrow> point \<Rightarrow> point \<Rightarrow> point list" where
  "cornerSubpoints ext radius prev pt nxt =
     (let prevIsHorizontal = headingForPointIsHorizontal ext pt prev;
          nextIsHorizontal = headingForPointIsHorizontal ext nxt pt;
          corner = elbowCorner ext radius prev pt nxt
      in [ (if prevIsHorizontal then
              (if fst prev < fst pt then (fst pt - corner, snd pt)
               else (fst pt + corner, snd pt))
            else if snd prev < snd pt then (fst pt, snd pt - corner)
            else (fst pt, snd pt + corner)),
           pt,
           (if nextIsHorizontal then
              (if fst nxt < fst pt then (fst pt - corner, snd pt)
               else (fst pt + corner, snd pt))
            else if snd nxt < snd pt then (fst pt, snd pt - corner)
            else (fst pt, snd pt + corner)) ])"

text \<open>The first loop: \<open>for (let i = 1; i < points.length - 1; i += 1)\<close>.\<close>

definition elbowSubpoints :: "externals \<Rightarrow> real \<Rightarrow> point list \<Rightarrow> point list" where
  "elbowSubpoints ext radius pts =
     concat (map (\<lambda>i. cornerSubpoints ext radius (pts ! (i - 1)) (pts ! i) (pts ! (i + 1)))
                 [1 ..< length pts - 1])"

text \<open>
  The second loop walks \<open>subpoints\<close> three at a time and pushes an \<open>L\<close> and a \<open>Q\<close>
  command. The first loop pushes three points at a time, so no group is incomplete.
\<close>

fun elbowCommands :: "point list \<Rightarrow> pathCmd list" where
  "elbowCommands (a # b # c # rest) =
     L (fst a) (snd a) # Q (fst b) (snd b) (fst c) (snd c) # elbowCommands rest"
| "elbowCommands _ = []"

text \<open>\<open>points[0][0]\<close> throws a \<open>TypeError\<close> on an empty array.\<close>

definition generateElbowArrowShape ::
  "externals \<Rightarrow> point list \<Rightarrow> real \<Rightarrow> error + pathCmd list" where
  "generateElbowArrowShape ext pts radius =
     (case pts of
        [] \<Rightarrow> Inl TypeError
      | p0 # _ \<Rightarrow>
          Inr (M (fst p0) (snd p0) # elbowCommands (elbowSubpoints ext radius pts) @
               [L (fst (last pts)) (snd (last pts))]))"


section \<open>3D box projector\<close>

text \<open>
  The constants of \<open>generate3DRectangularShapes\<close>, each as a function of the element's
  width \<open>w\<close>, height \<open>h\<close> and the requested depth \<open>d\<close>.
\<close>

definition xScale :: real where
  "xScale = sqrt 3 / 2"

definition yScale :: real where
  "yScale = 0.5"

definition hypot :: "real \<Rightarrow> real \<Rightarrow> real" where
  "hypot a b = sqrt (a * a + b * b)"

definition effectiveDepth :: "real \<Rightarrow> real \<Rightarrow> real \<Rightarrow> real" where
  "effectiveDepth w h d =
     (let maxPossibleDepthFromWidth = w / xScale;
          maxPossibleDepthFromHeight = h / yScale;
          maxPossibleDepth = min maxPossibleDepthFromWidth maxPossibleDepthFromHeight;
          maxAllowedDepth = maxPossibleDepth * 0.8
      in max (- maxAllowedDepth) (min maxAllowedDepth d))"

definition depthOffsetX :: "real \<Rightarrow> real \<Rightarrow> real \<Rightarrow> real" where
  "depthOffsetX w h d = \<bar>effectiveDepth w h d\<bar> * xScale"

definition depthOffsetY :: "real \<Rightarrow> real \<Rightarrow> real \<Rightarrow> real" where
  "depthOffsetY w h d = \<bar>effectiveDepth w h d\<bar> * yScale"

definition faceWidth :: "real \<Rightarrow> real \<Rightarrow> real \<Rightarrow> real" where
  "faceWidth w h d = w - depthOffsetX w h d"

definition faceHeight :: "real \<Rightarrow> real \<Rightarrow> real \<Rightarrow> real" where
  "faceHeight w h d = h - depthOffsetY w h d"

definition offsetX :: "real \<Rightarrow> real \<Rightarrow> real \<Rightarrow> real" where
  "offsetX w h d =
     (let totalWidth = faceWidth w h d + depthOffsetX w h d in (w - totalWidth) / 2)"

definition offsetY :: "real \<Rightarrow> real \<Rightarrow> real \<Rightarrow> real" where
  "offsetY w h d =
     (let totalHeight = faceHeight w h d + depthOffsetY w h d in (h - totalHeight) / 2)"

text \<open>\<open>centeredVertices\<close>: the array \<open>[v0, v1, v2, v3, v4, v5, v6, v7]\<close>.\<close>

definition centeredVertices :: "real \<Rightarrow> real \<Rightarrow> real \<Rightarrow> point list" where
  "centeredVertices w h d =
     (let ox = offsetX w h d; oy = offsetY w h d;
          fw = faceWidth w h d; fh = faceHeight w h d;
          dx = depthOffsetX w h d; dy = depthOffsetY w h d
      in if effectiveDepth w h d \<ge> 0 then
           [ (ox, oy + fh + dy), (ox + fw, oy + fh + dy),
             (ox + fw + dx, oy + fh), (ox + dx, oy + fh),
             (ox, oy + dy), (ox + fw, oy + dy),
             (ox + fw + dx, oy), (ox + dx, oy) ]
         else
           [ (ox + dx, oy + fh), (ox + fw + dx, oy + fh),
             (ox + fw, oy + fh + dy), (ox, oy + fh + dy),
             (ox + dx, oy), (ox + fw + dx, oy),
             (ox + fw, oy + dy), (ox, oy + dy) ])"

definition boxEdges :: "(nat \<times> nat) list" where
  "boxEdges = [(0, 1), (1, 2), (2, 3), (3, 0), (4, 5), (5, 6), (6, 7), (7, 4),
               (0, 4), (1, 5), (2, 6), (3, 7)]"

text \<open>\<open>shape3d.depth || (isCube ? element.width : element.width * 0.6)\<close>\<close>

definition requestedDepth :: "element \<Rightarrow> bool \<Rightarrow> real" where
  "requestedDepth el isCube =
     (let dflt = (if isCube then width el else width el * 0.6)
      in case shape3d el of
           None \<Rightarrow> dflt
         | Some s \<Rightarrow> (case depth s of
                        None \<Rightarrow> dflt
                      | Some d \<Rightarrow> if d = 0 then dflt else d))"

text \<open>
  \<open>createRoundedFacePath\<close>. A face edge of length 0 makes the source divide by zero
  (the path then holds NaN); the model's division gives 0 there.
\<close>

definition createRoundedFacePath ::
  "real \<Rightarrow> point \<Rightarrow> point \<Rightarrow> point \<Rightarrow> point \<Rightarrow> pathCmd list" where
  "createRoundedFacePath cornerRadius v0 v1 v2 v3 =
     (let r = min cornerRadius
                (min (hypot (fst v1 - fst v0) (snd v1 - snd v0) / 3)
                  (min (hypot (fst v2 - fst v1) (snd v2 - snd v1) / 3)
                    (min (hypot (fst v3 - fst v2) (snd v3 - snd v2) / 3)
                         (hypot (fst v0 - fst v3) (snd v0 - snd v3) / 3))));
          dir01 = ((fst v1 - fst v0) / hypot (fst v1 - fst v0) (snd v1 - snd v0),
                   (snd v1 - snd v0) / hypot (fst v1 - fst v0) (snd v1 - snd v0));
          dir12 = ((fst v2 - fst v1) / hypot (fst v2 - fst v1) (snd v2 - snd v1),
                   (snd v2 - snd v1) / hypot (fst v2 - fst v1) (snd v2 - snd v1));
          dir23 = ((fst v3 - fst v2) / hypot (fst v3 - fst v2) (snd v3 - snd v2),
                   (snd v3 - snd v2) / hypot (fst v3 - fst v2) (snd v3 - snd v2));
          dir30 = ((fst v0 - fst v3) / hypot (fst v0 - fst v3) (snd v0 - snd v3),
                   (snd v0 - snd v3) / hypot (fst v0 - fst v3) (snd v0 - snd v3))
      in [ M (fst v0 + fst dir01 * r) (snd v0 + snd dir01 * r),
           L (fst v1 - fst dir01 * r) (snd v1 - snd dir01 * r),
           Q (fst v1) (snd v1) (fst v1 + fst dir12 * r) (snd v1 + snd dir12 * r),
           L (fst v2 - fst dir12 * r) (snd v2 - snd dir12 * r),
           Q (fst v2) (snd v2) (fst v2 + fst dir23 * r) (snd v2 + snd dir23 * r),
           L (fst v3 - fst dir23 * r) (snd v3 - snd dir23 * r),
           Q (fst v3) (snd v3) (fst v3 + fst dir30 * r) (snd v3 + snd dir30 * r),
           L (fst v0 - fst dir30 * r) (snd v0 - snd dir30 * r),
           Q (fst v0) (snd v0) (fst v0 + fst dir01 * r) (snd v0 + snd dir01 * r),
           Z ])"

text \<open>What the modelled functions write to the console.\<close>

datatype diag =
    Elbow_extreme string "point list"
  | Vertices_outside real real real "point list"

text \<open>\<open>Array.prototype.unshift\<close> with one argument.\<close>

definition unshift :: "'a \<Rightarrow> 'a list \<Rightarrow> 'a list" where
  "unshift x xs = x # xs"

text \<open>
  The stroke options of the box edges (\<open>el.strokeWidth || 2\<close>,
  \<open>el.strokeColor || "#000000"\<close>).
\<close>

definition edgeOptions3D :: "externals \<Rightarrow> element \<Rightarrow> options" where
  "edgeOptions3D ext el =
     (let sw = (if strokeWidth el = 0 then 2 else strokeWidth el)
      in \<lparr> o_seed = Some (seed el),
           o_strokeLineDash =
             (if strokeStyle el = Dashed then Some (getDashArrayDashed sw)
              else if strokeStyle el = Dotted then Some (getDashArrayDotted sw)
              else None),
           o_disableMultiStroke = Some (strokeStyle el \<noteq> Solid),
           o_disableMultiStrokeFill = None,
           o_strokeWidth = Some (if strokeStyle el \<noteq> Solid then sw + 0.5 else sw),
           o_fillWeight = None,
           o_hachureGap = None,
           o_roughness = Some (adjustRoughness ext el),
           o_stroke = Some (if strokeColor el = [] then ''#000000'' else strokeColor el),
           o_preserveVertices = None,
           o_fillStyle = None,
           o_fill = None,
           o_curveFitting = None \<rparr>)"

text \<open>\<open>faceFillOptions\<close>\<close>

definition faceFillOptions :: "externals \<Rightarrow> element \<Rightarrow> options" where
  "faceFillOptions ext el =
     (let sw = (if strokeWidth el = 0 then 2 else strokeWidth el)
      in \<lparr> o_seed = Some (seed el),
           o_strokeLineDash = None,
           o_disableMultiStroke = None,
           o_disableMultiStrokeFill = None,
           o_strokeWidth = Some 0,
           o_fillWeight = Some (sw / 2),
           o_hachureGap = Some (sw * 4),
           o_roughness = Some (adjustRoughness ext el),
           o_stroke = Some ''none'',
           o_preserveVertices = None,
           o_fillStyle = Some (if fillStyle el = [] then ''solid'' else fillStyle el),
           o_fill = Some (backgroundColor el),
           o_curveFitting = None \<rparr>)"

text \<open>
  The edge primitives: three rounded face outlines when the corner radius is positive,
  the twelve straight edges otherwise.
\<close>

definition edgeShapes3D :: "externals \<Rightarrow> element \<Rightarrow> real \<Rightarrow> drawable list" where
  "edgeShapes3D ext el d =
     (let w = width el; h = height el;
          v = centeredVertices w h d;
          opts = edgeOptions3D ext el;
          span = min (faceWidth w h d) (min (faceHeight w h d) (\<bar>effectiveDepth w h d\<bar> * 0.5));
          maxPossibleRadius = span / 2;
          cornerRadius =
            (case roundness el of
               None \<Rightarrow> 0
             | Some rd \<Rightarrow> (case roundness_value rd of
                             Some x \<Rightarrow> min x maxPossibleRadius
                           | None \<Rightarrow> getCornerRadius ext span el))
      in if cornerRadius > 0 then
           [ Gen_path (createRoundedFacePath cornerRadius (v ! 0) (v ! 1) (v ! 5) (v ! 4)) opts,
             Gen_path (createRoundedFacePath cornerRadius (v ! 4) (v ! 5) (v ! 6) (v ! 7)) opts,
             Gen_path (createRoundedFacePath cornerRadius (v ! 1) (v ! 2) (v ! 6) (v ! 5)) opts ]
         else
           map (\<lambda>(startIdx, endIdx).
                  Gen_line (fst (v ! startIdx)) (snd (v ! startIdx))
                           (fst (v ! endIdx)) (snd (v ! endIdx)) opts)
               boxEdges)"

text \<open>The six face polygons, by the name the source gives each.\<close>

definition frontFace :: "externals \<Rightarrow> element \<Rightarrow> point list \<Rightarrow> drawable" where
  "frontFace ext el v = Gen_polygon [v ! 0, v ! 1, v ! 5, v ! 4] (faceFillOptions ext el)"

definition backFace :: "externals \<Rightarrow> element \<Rightarrow> point list \<Rightarrow> drawable" where
  "backFace ext el v = Gen_polygon [v ! 3, v ! 7, v ! 6, v ! 2] (faceFillOptions ext el)"

definition leftFace :: "externals \<Rightarrow> element \<Rightarrow> point list \<Rightarrow> drawable" where
  "leftFace ext el v = Gen_polygon [v ! 0, v ! 4, v ! 7, v ! 3] (faceFillOptions ext el)"

definition rightFace :: "externals \<Rightarrow> element \<Rightarrow> point list \<Rightarrow> drawable" where
  "rightFace ext el v = Gen_polygon [v ! 1, v ! 2, v ! 6, v ! 5] (faceFillOptions ext el)"

definition topFace :: "externals \<Rightarrow> element \<Rightarrow> point list \<Rightarrow> drawable" where
  "topFace ext el v = Gen_polygon [v ! 4, v ! 5, v ! 6, v ! 7] (faceFillOptions ext el)"

definition bottomFace :: "externals \<Rightarrow> element \<Rightarrow> point list \<Rightarrow> drawable" where
  "bottomFace ext el v = Gen_polygon [v ! 0, v ! 3, v ! 2, v ! 1] (faceFillOptions ext el)"

text \<open>
  \<open>generate3DRectangularShapes\<close>: the console warning of the bounds check, and the list
  \<open>shapes\<close>. The faces are put in front of the edges by six calls of \<open>unshift\<close>, in the
  order of the source. The rotations of \<open>shape3d\<close> are read and not used.
\<close>

definition generate3DRectangularShapes ::
  "externals \<Rightarrow> element \<Rightarrow> bool \<Rightarrow> diag list \<times> drawable list" where
  "generate3DRectangularShapes ext el isCube =
     (let w = width el; h = height el;
          d = requestedDepth el isCube;
          v = centeredVertices w h d;
          allWithinBounds =
            list_all (\<lambda>p. fst p \<ge> 0 \<and> fst p \<le> w \<and> snd p \<ge> 0 \<and> snd p \<le> h) v;
          warnings =
            (if allWithinBounds then [] else [Vertices_outside w h (effectiveDepth w h d) v]);
          shapes = edgeShapes3D ext el d
      in if backgroundColor el \<noteq> [] \<and> \<not> isTransparent ext (backgroundColor el) then
           (let shapes1 = unshift (backFace ext el v) shapes;
                shapes2 = unshift (bottomFace ext el v) shapes1;
                shapes3 = unshift (leftFace ext el v) shapes2;
                shapes4 = unshift (rightFace ext el v) shapes3;
                shapes5 = unshift (frontFace ext el v) shapes4;
                shapes6 = unshift (topFace ext el v) shapes5
            in (warnings, shapes6))
         else (warnings, shapes))"


section \<open>Shape generator\<close>

text \<open>An \<open>ElementShape\<close>: \<open>null\<close>, one drawable, or an array of drawables.\<close>

datatype elementShape =
    Shape_null
  | Shape_one drawable
  | Shape_list "drawable list"

record renderConfig =
  isExporting :: bool
  canvasBackgroundColor :: string
  embedsValidationStatus :: embedsValidationStatus

text \<open>The path of a rounded rectangle, as the template string of the source lists it.\<close>

definition roundedRectPath :: "real \<Rightarrow> real \<Rightarrow> real \<Rightarrow> pathCmd list" where
  "roundedRectPath w h r =
     [ M r 0, L (w - r) 0, Q w 0 w r, L w (h - r), Q w h (w - r) h, L r h,
       Q 0 h 0 (h - r), L 0 r, Q 0 0 r 0 ]"

text \<open>
  The path of a rounded diamond; \<open>dp\<close> is the array of \<open>getDiamondPoints\<close>
  (\<open>topX, topY, rightX, rightY, bottomX, bottomY, leftX, leftY\<close>).
\<close>

definition roundedDiamondPath :: "real list \<Rightarrow> real \<Rightarrow> real \<Rightarrow> pathCmd list" where
  "roundedDiamondPath dp verticalRadius horizontalRadius =
     (let topX = dp ! 0; topY = dp ! 1; rightX = dp ! 2; rightY = dp ! 3;
          bottomX = dp ! 4; bottomY = dp ! 5; leftX = dp ! 6; leftY = dp ! 7
      in [ M (topX + verticalRadius) (topY + horizontalRadius),
           L (rightX - verticalRadius) (rightY - horizontalRadius),
           C rightX rightY rightX rightY (rightX - verticalRadius) (rightY + horizontalRadius),
           L (bottomX + verticalRadius) (bottomY - horizontalRadius),
           C bottomX bottomY bottomX bottomY
             (bottomX - verticalRadius) (bottomY - horizontalRadius),
           L (leftX + verticalRadius) (leftY + horizontalRadius),
           C leftX leftY leftX leftY (leftX + verticalRadius) (leftY - horizontalRadius),
           L (topX - verticalRadius) (topY + horizontalRadius),
           C topX topY topX topY (topX + verticalRadius) (topY + horizontalRadius) ])"

text \<open>
  The body of a line or an arrow (the \<open>if\<close> chain that assigns \<open>shape\<close>), with the
  message written to \<open>console.error\<close>. \<open>if (options.fill)\<close> holds for a fill that is
  defined and not the empty string.
\<close>

definition linearBody ::
  "externals \<Rightarrow> element \<Rightarrow> options \<Rightarrow> diag list \<times> (error + drawable list)" where
  "linearBody ext el opts =
     (let pts = (if points el = [] then [(0, 0)] else points el)
      in if isElbowArrow ext el then
           (if \<not> list_all (\<lambda>p. \<bar>fst p\<bar> \<le> 1000000 \<and> \<bar>snd p\<bar> \<le> 1000000) pts
            then ([Elbow_extreme (elem_id el) pts], Inr [])
            else (case generateElbowArrowShape ext pts 16 of
                    Inl e \<Rightarrow> ([], Inl e)
                  | Inr d \<Rightarrow> (case generateRoughOptions ext el True of
                               Inl e \<Rightarrow> ([], Inl e)
                             | Inr ro \<Rightarrow> ([], Inr [Gen_path d ro]))))
         else if roundness el = None then
           (if (case o_fill opts of None \<Rightarrow> False | Some f \<Rightarrow> f \<noteq> [])
            then ([], Inr [Gen_polygon pts opts])
            else ([], Inr [Gen_linearPath pts opts]))
         else ([], Inr [Gen_curve pts opts]))"

text \<open>
  The arrowheads of an arrow (\<open>if (element.type === "arrow")\<close>). The destructuring
  defaults replace \<open>undefined\<close> only. Both calls get the same options object, so the
  second sees what the first did to it; \<open>shape.push\<close> extends the body in place, so
  the second call is given the body with the start arrowhead.
\<close>

definition withArrowheads ::
  "externals \<Rightarrow> element \<Rightarrow> options \<Rightarrow> string \<Rightarrow> drawable list \<Rightarrow> drawable list" where
  "withArrowheads ext el opts canvasBg shape =
     (if etype el = Arrow then
        (let startHead = (case startArrowhead el of None \<Rightarrow> None | Some a \<Rightarrow> a);
             endHead = (case endArrowhead el of None \<Rightarrow> Some Head_arrow | Some a \<Rightarrow> a);
             (opts1, shape1) =
               (case startHead of
                  None \<Rightarrow> (opts, shape)
                | Some ah \<Rightarrow>
                    (let (opts', shapes) = getArrowheadShapes ext el shape Start ah opts canvasBg
                     in (opts', shape @ shapes)));
             (opts2, shape2) =
               (case endHead of
                  None \<Rightarrow> (opts1, shape1)
                | Some ah \<Rightarrow>
                    (let (opts', shapes) = getArrowheadShapes ext el shape1 End ah opts1 canvasBg
                     in (opts', shape1 @ shapes)))
         in shape2)
      else shape)"

text \<open>
  \<open>generateElementShape\<close> (the low-level generator). The element is given by
  reference; the result is the store after the call, the console output, and the shape
  or the error thrown. \<open>generateFreeDrawShape\<close> fills a path cache of another module
  and is not part of the state. The \<open>default\<close> branch calls \<open>assertNever\<close>, which
  throws.
\<close>

definition generateElementShape ::
  "externals \<Rightarrow> store \<Rightarrow> nat \<Rightarrow> renderConfig \<Rightarrow> store \<times> diag list \<times> (error + elementShape)" where
  "generateElementShape ext st r cfg =
     (let el = st ! r; t = etype el in
      if t = Rectangle \<or> t = Iframe \<or> t = Embeddable then
        (let (st1, r1) = modifyIframeLikeForRoughOptions ext st r (isExporting cfg)
                           (embedsValidationStatus cfg)
         in if roundness el \<noteq> None then
              (let w = width el; h = height el;
                   rad = getCornerRadius ext (min w h) el
               in case generateRoughOptions ext (st1 ! r1) True of
                    Inl e \<Rightarrow> (st1, [], Inl e)
                  | Inr ro \<Rightarrow> (st1, [], Inr (Shape_one (Gen_path (roundedRectPath w h rad) ro))))
            else
              (case generateRoughOptions ext (st1 ! r1) False of
                 Inl e \<Rightarrow> (st1, [], Inl e)
               | Inr ro \<Rightarrow>
                   (st1, [], Inr (Shape_one (Gen_rectangle 0 0 (width el) (height el) ro)))))
      else if t = Diamond then
        (let dp = getDiamondPoints ext el
         in if roundness el \<noteq> None then
              (let verticalRadius = getCornerRadius ext \<bar>dp ! 0 - dp ! 6\<bar> el;
                   horizontalRadius = getCornerRadius ext \<bar>dp ! 3 - dp ! 1\<bar> el
               in case generateRoughOptions ext el True of
                    Inl e \<Rightarrow> (st, [], Inl e)
                  | Inr ro \<Rightarrow>
                      (st, [], Inr (Shape_one
                         (Gen_path (roundedDiamondPath dp verticalRadius horizontalRadius) ro))))
            else
              (case generateRoughOptions ext el False of
                 Inl e \<Rightarrow> (st, [], Inl e)
               | Inr ro \<Rightarrow>
                   (st, [], Inr (Shape_one
                      (Gen_polygon [(dp ! 0, dp ! 1), (dp ! 2, dp ! 3), (dp ! 4, dp ! 5),
                                    (dp ! 6, dp ! 7)] ro)))))
      else if t = Ellipse then
        (case generateRoughOptions ext el False of
           Inl e \<Rightarrow> (st, [], Inl e)
         | Inr ro \<Rightarrow>
             (st, [], Inr (Shape_one
                (Gen_ellipse (width el / 2) (height el / 2) (width el) (height el) ro))))
      else if t = Line \<or> t = Arrow then
        (case generateRoughOptions ext el False of
           Inl e \<Rightarrow> (st, [], Inl e)
         | Inr opts \<Rightarrow>
             (case linearBody ext el opts of
                (ds, Inl e) \<Rightarrow> (st, ds, Inl e)
              | (ds, Inr shape) \<Rightarrow>
                  (st, ds, Inr (Shape_list
                     (withArrowheads ext el opts (canvasBackgroundColor cfg) shape)))))
      else if t = Freedraw then
        (if isPathALoop ext (points el) then
           (case generateRoughOptions ext el False of
              Inl e \<Rightarrow> (st, [], Inl e)
            | Inr ro \<Rightarrow>
                (st, [], Inr (Shape_one
                   (Gen_curve (simplify ext (points el) 0.75) (ro\<lparr> o_stroke := Some ''none'' \<rparr>)))))
         else (st, [], Inr Shape_null))
      else if t = Frame \<or> t = Magicframe \<or> t = Text \<or> t = Image then
        (st, [], Inr Shape_null)
      else if t = Cube then
        (let (ds, shapes) = generate3DRectangularShapes ext el True
         in (st, ds, Inr (Shape_list shapes)))
      else if t = RectangularPrism then
        (let (ds, shapes) = generate3DRectangularShapes ext el False
         in (st, ds, Inr (Shape_list shapes)))
      else (st, [], Inl (Unimplemented_type t)))"

section \<open>Shape cache\<close>

text \<open>
  The static state of \<open>ShapeCache\<close> and what it touches: the \<open>WeakMap\<close> from element
  references to shapes, the keys of \<open>elementWithCanvasCache\<close>, the object store and the
  console. \<open>generated\<close> lists the calls of the low-level generator, so that a theorem
  can say whether it was invoked.
\<close>

record cacheState =
  cache :: "nat \<rightharpoonup> elementShape"
  elementWithCanvasCache :: "nat set"
  objects :: store
  console :: "diag list"
  generated :: "(nat \<times> renderConfig) list"

definition ShapeCache_get :: "cacheState \<Rightarrow> nat \<Rightarrow> elementShape option" where
  "ShapeCache_get s r = cache s r"

definition ShapeCache_set :: "cacheState \<Rightarrow> nat \<Rightarrow> elementShape \<Rightarrow> cacheState" where
  "ShapeCache_set s r shape = s\<lparr> cache := (cache s)(r \<mapsto> shape) \<rparr>"

definition ShapeCache_delete :: "cacheState \<Rightarrow> nat \<Rightarrow> cacheState" where
  "ShapeCache_delete s r = s\<lparr> cache := (cache s)(r := None) \<rparr>"

definition ShapeCache_destroy :: "cacheState \<Rightarrow> cacheState" where
  "ShapeCache_destroy s = s\<lparr> cache := Map.empty \<rparr>"

text \<open>
  \<open>ShapeCache.generateElementShape\<close>. \<open>renderConfig?.isExporting\<close> is false for
  \<open>null\<close>. An error thrown by the generator leaves the method before the cache is
  written.
\<close>

definition ShapeCache_generateElementShape ::
  "externals \<Rightarrow> cacheState \<Rightarrow> nat \<Rightarrow> renderConfig option
     \<Rightarrow> cacheState \<times> (error + elementShape)" where
  "ShapeCache_generateElementShape ext s r renderConfig =
     (let cachedShape =
            (if (case renderConfig of None \<Rightarrow> False | Some c \<Rightarrow> isExporting c) then None
             else ShapeCache_get s r)
      in case cachedShape of
           Some shape \<Rightarrow> (s, Inr shape)
         | None \<Rightarrow>
             (let s1 = s\<lparr> elementWithCanvasCache := elementWithCanvasCache s - {r} \<rparr>;
                  cfg = (case renderConfig of
                           None \<Rightarrow> \<lparr> isExporting = False,
                                     canvasBackgroundColor = COLOR_PALETTE_white ext,
                                     embedsValidationStatus = None \<rparr>
                         | Some c \<Rightarrow> c);
                  (st', ds, res) = generateElementShape ext (objects s1) r cfg;
                  s2 = s1\<lparr> objects := st', console := console s1 @ ds,
                           generated := generated s1 @ [(r, cfg)] \<rparr>
              in case res of
                   Inl e \<Rightarrow> (s2, Inl e)
                 | Inr shape \<Rightarrow> (ShapeCache_set s2 r shape, Inr shape)))"

section \<open>Polygon toggle\<close>

text \<open>
  \<open>element.points\<close> is an array held by reference. \<open>arrays\<close> lists the point arrays in
  memory, and an address is an index into it. \<open>toggleLinePolygonState\<close> reads nothing
  of the element but \<open>element.points\<close>, so the element is given by the address \<open>pa\<close> of
  that array. The spread \<open>[...element.points]\<close> allocates a new array; \<open>push\<close> and the
  indexed assignment write to the array at the address they are applied to.
  \<open>firstPoint[0]\<close> throws a \<open>TypeError\<close> when the array is empty.
\<close>

type_synonym arrays = "point list list"

record polygonUpdate =
  polygon :: bool
  points_at :: nat

definition toggleLinePolygonState ::
  "externals \<Rightarrow> arrays \<Rightarrow> nat \<Rightarrow> bool \<Rightarrow> arrays \<times> (error + polygonUpdate option)" where
  "toggleLinePolygonState ext mem pa nextPolygonState =
     (let (mem1, updatedPoints) = alloc mem (mem ! pa)
      in if nextPolygonState then
           (if \<not> canBecomePolygon ext (mem1 ! pa) then (mem1, Inr None)
            else
              (case mem1 ! updatedPoints of
                 [] \<Rightarrow> (mem1, Inl TypeError)
               | firstPoint # _ \<Rightarrow>
                   (let lastPoint = last (mem1 ! updatedPoints);
                        distance = hypot (fst firstPoint - fst lastPoint)
                                         (snd firstPoint - snd lastPoint);
                        mem2 =
                          (if distance > LINE_POLYGON_POINT_MERGE_DISTANCE ext \<or>
                              length (mem1 ! updatedPoints) < 4
                           then mem1[updatedPoints :=
                                  mem1 ! updatedPoints @ [(fst firstPoint, snd firstPoint)]]
                           else mem1[updatedPoints :=
                                  (mem1 ! updatedPoints)
                                    [length (mem1 ! updatedPoints) - 1 :=
                                       (fst firstPoint, snd firstPoint)]])
                    in (mem2, Inr (Some \<lparr> polygon = nextPolygonState,
                                           points_at = updatedPoints \<rparr>)))))
         else (mem1, Inr (Some \<lparr> polygon = nextPolygonState, points_at = updatedPoints \<rparr>)))"


section \<open>Sample inputs\<close>

text \<open>
  One instance of the collaborators and one element, at which the theorems below are
  evaluated. No theorem about the model assumes the instance. Its \<open>isLinearElement\<close>
  accepts lines and arrows, the elements the source types as
  \<open>ExcalidrawLinearElement\<close>; freedraw elements have the type
  \<open>ExcalidrawFreeDrawElement\<close>.
\<close>

definition sample_externals :: externals where
  "sample_externals =
     \<lparr> isTransparent = (\<lambda>c. c = ''transparent''),
       isLinearElement = (\<lambda>e. etype e = Line \<or> etype e = Arrow),
       isElbowArrow = (\<lambda>e. etype e = Arrow \<and> roundness e = None),
       isIframeLikeElement = (\<lambda>e. etype e = Iframe \<or> etype e = Embeddable),
       isEmbeddableElement = (\<lambda>e. etype e = Embeddable),
       isIframeElement = (\<lambda>e. etype e = Iframe),
       isPathALoop = (\<lambda>ps. False),
       canBecomePolygon = (\<lambda>ps. length ps > 3 \<or> (length ps = 3 \<and> hd ps \<noteq> last ps)),
       getCornerRadius = (\<lambda>x e. x / 4),
       getDiamondPoints =
         (\<lambda>e. [width e / 2, 0, width e, height e / 2, width e / 2, height e, 0, height e / 2]),
       getArrowheadPoints =
         (\<lambda>e shape pos ah. if shape = [] then None else Some [0, 0, 1, 1, 2, 2, 3, 3]),
       simplify = (\<lambda>ps tolerance. ps),
       headingForPointIsHorizontal = (\<lambda>a b. \<bar>snd a - snd b\<bar> \<le> \<bar>fst a - fst b\<bar>),
       pointDistance = (\<lambda>a b. hypot (fst a - fst b) (snd a - snd b)),
       ROUGHNESS_cartoonist = 2,
       LINE_POLYGON_POINT_MERGE_DISTANCE = 20,
       COLOR_PALETTE_white = ''#ffffff'' \<rparr>"

definition sample_element :: element where
  "sample_element =
     \<lparr> elem_id = ''e1'', etype = Rectangle, width = 100, height = 80,
       strokeColor = ''#1e1e1e'', backgroundColor = ''transparent'', fillStyle = ''solid'',
       strokeWidth = 2, strokeStyle = Solid, roughness = 1, seed = 7, roundness = None,
       points = [], startArrowhead = Some None, endArrowhead = Some None,
       shape3d = None \<rparr>"


text \<open>
  A dashed arrow of roughness 2 from \<open>(0, 0)\<close> to \<open>(100, 0)\<close>, and the options that
  \<open>generateRoughOptions\<close> builds for it.
\<close>

definition sample_arrow :: element where
  "sample_arrow =
     sample_element\<lparr> etype := Arrow, width := 100, height := 0, strokeStyle := Dashed,
       roughness := 2, points := [(0, 0), (100, 0)], roundness := Some \<lparr> roundness_type = 2,
       roundness_value = None \<rparr>, endArrowhead := Some (Some Head_crowfoot_one) \<rparr>"

definition sample_options :: options where
  "sample_options =
     \<lparr> o_seed = Some 7, o_strokeLineDash = Some [8, 10], o_disableMultiStroke = Some True,
       o_disableMultiStrokeFill = None, o_strokeWidth = Some 2.5, o_fillWeight = Some 1,
       o_hachureGap = Some 8, o_roughness = Some 2, o_stroke = Some ''#1e1e1e'',
       o_preserveVertices = Some False, o_fillStyle = None, o_fill = None,
       o_curveFitting = None \<rparr>"

text \<open>A cache state with one text element, whose cached shape is the \<open>null\<close> marker.\<close>

definition sample_state :: cacheState where
  "sample_state =
     \<lparr> cache = [0 \<mapsto> Shape_null], elementWithCanvasCache = {0},
       objects = [sample_element\<lparr> etype := Text \<rparr>], console = [], generated = [] \<rparr>"

definition sample_config :: renderConfig where
  "sample_config =
     \<lparr> isExporting = True, canvasBackgroundColor = ''#ffffff'',
       embedsValidationStatus = None \<rparr>"

section \<open>Helper lemmas\<close>

lemma sqrt3_bounds: "1 \<le> sqrt 3" "sqrt 3 \<le> 2"
proof -
  show "1 \<le> sqrt 3" by simp
  have "sqrt 3 \<le> sqrt 4" by (rule real_sqrt_le_mono) simp
  also have "sqrt 4 = 2"
  proof -
    have "sqrt (2 * 2) = \<bar>2::real\<bar>" by (rule real_sqrt_abs2)
    then show ?thesis by simp
  qed
  finally show "sqrt 3 \<le> 2" .
qed

lemma effectiveDepth_100_80_40: "effectiveDepth 100 80 40 = 40"
proof -
  have pos: "0 < sqrt 3" using sqrt3_bounds(1) by linarith
  have "100 * sqrt 3 \<le> 200" using sqrt3_bounds(2) by linarith
  then have a: "100 \<le> 200 / sqrt 3" using pos by (simp add: pos_le_divide_eq)
  have "100 / xScale = 200 / sqrt 3" by (simp add: xScale_def)
  then have b: "100 \<le> 100 / xScale" using a by simp
  have c: "80 / yScale = 160" by (simp add: yScale_def)
  have "80 \<le> min (100 / xScale) (80 / yScale) * 0.8"
    using b c by (simp add: min_def)
  then show ?thesis
    by (simp add: effectiveDepth_def Let_def min_def max_def)
qed

lemma centeredVertices_100_80_40:
  "centeredVertices 100 80 40 =
     [ (0, 80), (100 - 20 * sqrt 3, 80), (100, 60), (20 * sqrt 3, 60),
       (0, 20), (100 - 20 * sqrt 3, 20), (100, 0), (20 * sqrt 3, 0) ]"
  by (simp add: centeredVertices_def Let_def offsetX_def offsetY_def faceWidth_def
        faceHeight_def depthOffsetX_def depthOffsetY_def effectiveDepth_100_80_40
        xScale_def yScale_def)

lemma hypot_zero_right: "hypot a 0 = \<bar>a\<bar>"
  by (simp add: hypot_def)

lemma hypot_zero_left: "hypot 0 b = \<bar>b\<bar>"
  by (simp add: hypot_def)

lemma concat_map_nth3:
  assumes "\<And>x. length (f x) = 3" "k < length xs" "j < 3"
  shows "concat (map f xs) ! (3 * k + j) = f (xs ! k) ! j"
  using assms(2)
proof (induction xs arbitrary: k)
  case Nil
  then show ?case by simp
next
  case (Cons x xs)
  show ?case
  proof (cases k)
    case 0
    then show ?thesis using assms(1) [of x] assms(3) by (simp add: nth_append)
  next
    case (Suc k')
    then have "k' < length xs" using Cons.prems by simp
    then have "concat (map f xs) ! (3 * k' + j) = f (xs ! k') ! j" by (rule Cons.IH)
    then show ?thesis using Suc assms(1) [of x] by (simp add: nth_append)
  qed
qed

lemma length_concat_map3:
  assumes "\<And>x. length (f x) = 3"
  shows "length (concat (map f xs)) = 3 * length xs"
  using assms by (induction xs) simp_all

lemma length_cornerSubpoints: "length (cornerSubpoints ext radius a b c) = 3"
  by (simp add: cornerSubpoints_def Let_def)

lemma length_elbowSubpoints:
  "length (elbowSubpoints ext radius pts) = 3 * (length pts - 2)"
  unfolding elbowSubpoints_def
  by (simp add: length_concat_map3 [OF length_cornerSubpoints])

lemma elbowSubpoints_nth:
  assumes "1 \<le> i" "i + 1 < length pts" "j < 3"
  shows "elbowSubpoints ext radius pts ! (3 * (i - 1) + j) =
         cornerSubpoints ext radius (pts ! (i - 1)) (pts ! i) (pts ! (i + 1)) ! j"
proof -
  have k: "i - 1 < length [1 ..< length pts - 1]" using assms by simp
  have n: "[1 ..< length pts - 1] ! (i - 1) = i" using assms by simp
  show ?thesis
    unfolding elbowSubpoints_def
    using concat_map_nth3 [where f = "\<lambda>i. cornerSubpoints ext radius (pts ! (i - 1)) (pts ! i) (pts ! (i + 1))",
            OF length_cornerSubpoints k assms(3)] n
    by simp
qed

lemma elbowCommands_nth:
  "3 * k + 2 < length xs \<Longrightarrow>
     2 * k + 1 < length (elbowCommands xs) \<and>
     elbowCommands xs ! (2 * k) = L (fst (xs ! (3 * k))) (snd (xs ! (3 * k))) \<and>
     elbowCommands xs ! (2 * k + 1) =
       Q (fst (xs ! (3 * k + 1))) (snd (xs ! (3 * k + 1)))
         (fst (xs ! (3 * k + 2))) (snd (xs ! (3 * k + 2)))"
proof (induction xs arbitrary: k rule: elbowCommands.induct)
  case (1 a b c rest)
  show ?case
  proof (cases k)
    case 0
    then show ?thesis by simp
  next
    case (Suc k')
    then have "3 * k' + 2 < length rest" using "1.prems" by simp
    from "1.IH" [OF this] show ?thesis using Suc by simp
  qed
qed simp_all


lemma cornerSubpoints_inset:
  "cornerSubpoints ext radius p v n ! 1 = v \<and>
   hypot (fst (cornerSubpoints ext radius p v n ! 0) - fst v)
         (snd (cornerSubpoints ext radius p v n ! 0) - snd v) = \<bar>elbowCorner ext radius p v n\<bar> \<and>
   hypot (fst (cornerSubpoints ext radius p v n ! 2) - fst v)
         (snd (cornerSubpoints ext radius p v n ! 2) - snd v) = \<bar>elbowCorner ext radius p v n\<bar>"
  by (simp add: cornerSubpoints_def Let_def hypot_zero_right hypot_zero_left)

lemma cornerSubpoints_zero:
  "elbowCorner ext radius p v n = 0 \<Longrightarrow>
   cornerSubpoints ext radius p v n ! 0 = v \<and> cornerSubpoints ext radius p v n ! 2 = v"
  by (simp add: cornerSubpoints_def Let_def)

lemma toggle_false:
  "toggleLinePolygonState ext mem pa False =
     (mem @ [mem ! pa], Inr (Some \<lparr> polygon = False, points_at = length mem \<rparr>))"
  by (simp add: toggleLinePolygonState_def alloc_def)

lemma toggle_true_reject:
  "pa < length mem \<Longrightarrow> \<not> canBecomePolygon ext (mem ! pa) \<Longrightarrow>
   toggleLinePolygonState ext mem pa True = (mem @ [mem ! pa], Inr None)"
  by (simp add: toggleLinePolygonState_def alloc_def nth_append)

lemma toggle_true_empty:
  "pa < length mem \<Longrightarrow> canBecomePolygon ext (mem ! pa) \<Longrightarrow> mem ! pa = [] \<Longrightarrow>
   toggleLinePolygonState ext mem pa True = (mem @ [mem ! pa], Inl TypeError)"
  by (simp add: toggleLinePolygonState_def alloc_def nth_append)

lemma toggle_true_accept:
  assumes "pa < length mem" "canBecomePolygon ext (mem ! pa)" "mem ! pa \<noteq> []"
  shows "toggleLinePolygonState ext mem pa True =
     (mem @ [if hypot (fst (hd (mem ! pa)) - fst (last (mem ! pa)))
                      (snd (hd (mem ! pa)) - snd (last (mem ! pa)))
                  > LINE_POLYGON_POINT_MERGE_DISTANCE ext \<or> length (mem ! pa) < 4
             then mem ! pa @ [hd (mem ! pa)]
             else butlast (mem ! pa) @ [hd (mem ! pa)]],
      Inr (Some \<lparr> polygon = True, points_at = length mem \<rparr>))"
proof -
  obtain p ps where c: "mem ! pa = p # ps" using assms(3) by (cases "mem ! pa") simp_all
  have upd: "(p # ps)[length ps := p] = butlast (p # ps) @ [p]"
    by (metis append_butlast_last_id length_butlast length_Cons diff_Suc_1
          list.distinct(1) list_update_length)
  show ?thesis
    using assms(1,2) c upd
    by (simp add: toggleLinePolygonState_def alloc_def nth_append Let_def)
qed

lemma sample_options_built:
  "generateRoughOptions sample_externals sample_arrow False = Inr sample_options"
  by (simp add: generateRoughOptions_def sample_externals_def sample_arrow_def
        sample_element_def sample_options_def adjustRoughness_def getDashArrayDashed_def
        Let_def)

lemma generateRoughOptions_linear:
  "etype el = Line \<or> etype el = Arrow \<Longrightarrow> \<exists>opts. generateRoughOptions ext el b = Inr opts"
  by (auto simp: generateRoughOptions_def Let_def)

lemma getArrowheadShapes_none:
  "getArrowheadPoints ext el shape pos ah = None \<Longrightarrow>
   getArrowheadShapes ext el shape pos ah opts cbg = (opts, [])"
  by (simp add: getArrowheadShapes_def)

lemma withArrowheads_none:
  assumes "\<And>pos ah. getArrowheadPoints ext el [] pos ah = None"
  shows "withArrowheads ext el opts cbg [] = []"
  by (simp add: withArrowheads_def Let_def getArrowheadShapes_none [OF assms]
        split: option.splits)

lemma linearBody_extreme:
  assumes "isElbowArrow ext el"
      "\<exists>p \<in> set (points el). \<bar>fst p\<bar> > 1000000 \<or> \<bar>snd p\<bar> > 1000000"
  shows "linearBody ext el opts = ([Elbow_extreme (elem_id el) (points el)], Inr [])"
proof -
  from assms(2) have ne: "points el \<noteq> []" by auto
  from assms(2) have "\<not> list_all (\<lambda>p. \<bar>fst p\<bar> \<le> 1000000 \<and> \<bar>snd p\<bar> \<le> 1000000) (points el)"
    by (auto simp: list_all_iff not_le)
  then show ?thesis using assms(1) ne by (simp add: linearBody_def Let_def)
qed

lemma modify_store:
  "\<exists>xs. fst (modifyIframeLikeForRoughOptions ext st r ex evs) = st @ xs"
  by (simp add: modifyIframeLikeForRoughOptions_def alloc_def Let_def)

lemma modify_etype:
  "r < length st \<Longrightarrow>
   etype (fst (modifyIframeLikeForRoughOptions ext st r ex evs) !
          snd (modifyIframeLikeForRoughOptions ext st r ex evs)) = etype (st ! r)"
  by (simp add: modifyIframeLikeForRoughOptions_def alloc_def Let_def)

lemma alloc_if_value:
  "r < length st \<Longrightarrow>
   fst (if c1 then alloc st a else if c2 then alloc st b else (st, r)) !
     snd (if c1 then alloc st a else if c2 then alloc st b else (st, r)) =
   (if c1 then a else if c2 then b else st ! r)"
  by (simp add: alloc_def)

lemma modify_value:
  "r < length st \<Longrightarrow>
   fst (modifyIframeLikeForRoughOptions ext st r ex evs) !
     snd (modifyIframeLikeForRoughOptions ext st r ex evs) =
   (if isIframeLikeElement ext (st ! r) \<and>
       (ex \<or> (isEmbeddableElement ext (st ! r) \<and>
               (case evs of None \<Rightarrow> None | Some m \<Rightarrow> m (elem_id (st ! r))) \<noteq> Some True)) \<and>
       isTransparent ext (backgroundColor (st ! r)) \<and>
       isTransparent ext (strokeColor (st ! r))
    then (st ! r)\<lparr> roughness := 0, backgroundColor := ''#d3d3d3'', fillStyle := ''solid'' \<rparr>
    else if isIframeElement ext (st ! r)
    then (st ! r)\<lparr>
           strokeColor := (if isTransparent ext (strokeColor (st ! r)) then ''#000000''
                           else strokeColor (st ! r)),
           backgroundColor := (if isTransparent ext (backgroundColor (st ! r))
                               then ''#f4f4f6'' else backgroundColor (st ! r)) \<rparr>
    else st ! r)"
  unfolding modifyIframeLikeForRoughOptions_def Let_def by (rule alloc_if_value)

lemma generateRoughOptions_rect:
  "etype el = Rectangle \<or> etype el = Iframe \<or> etype el = Embeddable \<Longrightarrow>
   \<exists>opts. generateRoughOptions ext el b = Inr opts"
  by (auto simp: generateRoughOptions_def Let_def)

lemma generateElementShape_rect:
  assumes "etype (st ! r) = Rectangle \<or> etype (st ! r) = Iframe \<or> etype (st ! r) = Embeddable"
      "modifyIframeLikeForRoughOptions ext st r (isExporting cfg) (embedsValidationStatus cfg)
         = (st1, r1)"
      "generateRoughOptions ext (st1 ! r1) (roundness (st ! r) \<noteq> None) = Inr opts"
  shows "generateElementShape ext st r cfg =
     (st1, [],
      Inr (Shape_one
        (if roundness (st ! r) \<noteq> None
         then Gen_path (roundedRectPath (width (st ! r)) (height (st ! r))
                 (getCornerRadius ext (min (width (st ! r)) (height (st ! r))) (st ! r))) opts
         else Gen_rectangle 0 0 (width (st ! r)) (height (st ! r)) opts)))"
  using assms by (auto simp: generateElementShape_def Let_def)

section \<open>The claims\<close>

subsection \<open>Roughness adjuster\<close>

text \<open>
  Claim C3, as stated, fails. The claim reads the third condition as "the element is a
  line, an arrow or a freedraw, and max is at least 50". The source asks
  \<open>isLinearElement(element)\<close>, the type guard of \<open>ExcalidrawLinearElement\<close>, and the
  source keeps freedraw elements apart from that type
  (\<open>ExcalidrawLinearElement | ExcalidrawFreeDrawElement\<close> in
  \<open>generateLinearCollisionShape\<close>, whose \<open>switch\<close> has one branch for \<open>"line"\<close> and
  \<open>"arrow"\<close> and another for \<open>"freedraw"\<close>). With the guard accepting lines and arrows,
  a freedraw element of width 60, height 10 and roughness 2 is dampened to 1, where the
  claim says 2; an arrow of the same size keeps 2.
\<close>

theorem adjustRoughness_freedraw_dampened:
  "adjustRoughness sample_externals
     (sample_element\<lparr> etype := Freedraw, width := 60, height := 10, roughness := 2 \<rparr>) = 1
   \<and> adjustRoughness sample_externals
     (sample_element\<lparr> etype := Arrow, width := 60, height := 10, roughness := 2 \<rparr>) = 2"
  by (simp add: adjustRoughness_def sample_externals_def sample_element_def
        canChangeRoundness_def)

text \<open>
  Claim C3, amended. \<open>adjustRoughness\<close> returns \<open>element.roughness\<close> unchanged when both
  sides are big (min at least 20 and max at least 50), or when min is at least 15 and
  the element has a roundness descriptor and a type that supports roundness, or when
  \<open>isLinearElement\<close> accepts the element and max is at least 50; otherwise it returns
  \<open>min(roughness / (max < 10 ? 3 : 2), 2.5)\<close>. Where \<open>isLinearElement\<close> accepts an
  element exactly when it is a line or an arrow, the third condition is "the type is
  line or arrow, and max is at least 50", so that a freedraw element keeps its
  roughness only when both sides are big. For width = height = 5 the result is at most
  a third of the input and at most 2.5.
\<close>

theorem adjustRoughness_rule:
  "adjustRoughness ext el =
     (if (min (width el) (height el) \<ge> 20 \<and> max (width el) (height el) \<ge> 50) \<or>
         (min (width el) (height el) \<ge> 15 \<and> roundness el \<noteq> None \<and>
          canChangeRoundness (etype el)) \<or>
         (isLinearElement ext el \<and> max (width el) (height el) \<ge> 50)
      then roughness el
      else min (roughness el / (if max (width el) (height el) < 10 then 3 else 2)) 2.5)
   \<and> (isLinearElement ext el = (etype el = Line \<or> etype el = Arrow) \<longrightarrow>
        adjustRoughness ext el =
          (if (min (width el) (height el) \<ge> 20 \<and> max (width el) (height el) \<ge> 50) \<or>
              (min (width el) (height el) \<ge> 15 \<and> roundness el \<noteq> None \<and>
               canChangeRoundness (etype el)) \<or>
              ((etype el = Line \<or> etype el = Arrow) \<and> max (width el) (height el) \<ge> 50)
           then roughness el
           else min (roughness el / (if max (width el) (height el) < 10 then 3 else 2)) 2.5))
   \<and> (isLinearElement ext el = (etype el = Line \<or> etype el = Arrow) \<and>
        etype el = Freedraw \<longrightarrow>
        adjustRoughness ext el =
          (if min (width el) (height el) \<ge> 20 \<and> max (width el) (height el) \<ge> 50
           then roughness el
           else min (roughness el / (if max (width el) (height el) < 10 then 3 else 2)) 2.5))
   \<and> (width el = 5 \<and> height el = 5 \<longrightarrow>
        adjustRoughness ext el \<le> roughness el / 3 \<and> adjustRoughness ext el \<le> 2.5)"
  (is "?general \<and> (?guard \<longrightarrow> ?typed) \<and> (?guard \<and> ?fd \<longrightarrow> ?freedraw) \<and> ?small")
proof (intro conjI)
  show g: ?general
    unfolding adjustRoughness_def Let_def by (rule refl)
  show "?guard \<longrightarrow> ?typed"
  proof
    assume ?guard
    then show ?typed unfolding adjustRoughness_def Let_def by simp
  qed
  show "?guard \<and> ?fd \<longrightarrow> ?freedraw"
  proof
    assume a: "?guard \<and> ?fd"
    then have "\<not> isLinearElement ext el" "\<not> canChangeRoundness (etype el)"
      by (simp_all add: canChangeRoundness_def)
    then show ?freedraw unfolding adjustRoughness_def Let_def by simp
  qed
  show ?small
  proof (intro impI)
    assume "width el = 5 \<and> height el = 5"
    then have eq: "adjustRoughness ext el = min (roughness el / 3) 2.5"
      by (simp add: adjustRoughness_def Let_def)
    show "adjustRoughness ext el \<le> roughness el / 3 \<and> adjustRoughness ext el \<le> 2.5"
      unfolding eq by (intro conjI min.cobounded1 min.cobounded2)
  qed
qed

theorem adjustRoughness_rule_witness:
  "adjustRoughness sample_externals
     (sample_element\<lparr> width := 5, height := 5, roughness := 3 \<rparr>) = 1
   \<and> adjustRoughness sample_externals
     (sample_element\<lparr> width := 100, height := 60, roughness := 3 \<rparr>) = 3
   \<and> adjustRoughness sample_externals
     (sample_element\<lparr> width := 30, height := 12, roughness := 8 \<rparr>) = 2.5
   \<and> adjustRoughness sample_externals
     (sample_element\<lparr> etype := Line, width := 60, height := 10, roughness := 2 \<rparr>) = 2
   \<and> adjustRoughness sample_externals
     (sample_element\<lparr> etype := Freedraw, width := 8, height := 6, roughness := 3 \<rparr>) = 1
   \<and> adjustRoughness sample_externals
     (sample_element\<lparr> etype := Freedraw, width := 60, height := 25, roughness := 2 \<rparr>) = 2"
  using adjustRoughness_rule
          [of sample_externals "sample_element\<lparr> width := 5, height := 5, roughness := 3 \<rparr>"]
        adjustRoughness_rule
          [of sample_externals "sample_element\<lparr> width := 100, height := 60, roughness := 3 \<rparr>"]
        adjustRoughness_rule
          [of sample_externals "sample_element\<lparr> width := 30, height := 12, roughness := 8 \<rparr>"]
        adjustRoughness_rule
          [of sample_externals
              "sample_element\<lparr> etype := Line, width := 60, height := 10, roughness := 2 \<rparr>"]
        adjustRoughness_rule
          [of sample_externals
              "sample_element\<lparr> etype := Freedraw, width := 8, height := 6, roughness := 3 \<rparr>"]
        adjustRoughness_rule
          [of sample_externals
              "sample_element\<lparr> etype := Freedraw, width := 60, height := 25, roughness := 2 \<rparr>"]
  by (simp add: sample_externals_def sample_element_def canChangeRoundness_def)

subsection \<open>3D box projector\<close>

text \<open>
  Claim C8. For a box element with width 100, height 80 and requested depth 40, the
  eight projected vertices are the ones listed, each has \<open>0 \<le> x \<le> 100\<close> and
  \<open>0 \<le> y \<le> 80\<close>, and the bounds check of \<open>generate3DRectangularShapes\<close> writes no
  warning.
\<close>

theorem box_100_80_40_within_bounds:
  "width el = 100 \<and> height el = 80 \<and> shape3d el = Some s \<and> depth s = Some 40 \<longrightarrow>
     centeredVertices (width el) (height el) (requestedDepth el isCube) =
       [ (0, 80), (100 - 20 * sqrt 3, 80), (100, 60), (20 * sqrt 3, 60),
         (0, 20), (100 - 20 * sqrt 3, 20), (100, 0), (20 * sqrt 3, 0) ]
     \<and> list_all (\<lambda>v. 0 \<le> fst v \<and> fst v \<le> 100 \<and> 0 \<le> snd v \<and> snd v \<le> 80)
          (centeredVertices (width el) (height el) (requestedDepth el isCube))
     \<and> fst (generate3DRectangularShapes ext el isCube) = []"
proof (intro impI)
  assume h: "width el = 100 \<and> height el = 80 \<and> shape3d el = Some s \<and> depth s = Some 40"
  then have d: "requestedDepth el isCube = 40"
    by (simp add: requestedDepth_def Let_def)
  have s1: "0 \<le> 20 * sqrt 3" "20 * sqrt 3 \<le> 100" using sqrt3_bounds by linarith+
  have inb: "list_all (\<lambda>v. 0 \<le> fst v \<and> fst v \<le> 100 \<and> 0 \<le> snd v \<and> snd v \<le> 80)
          (centeredVertices 100 80 40)"
    unfolding centeredVertices_100_80_40 using s1 by simp
  have w: "fst (generate3DRectangularShapes ext el isCube) = []"
    using h inb by (simp add: generate3DRectangularShapes_def Let_def d)
  show "centeredVertices (width el) (height el) (requestedDepth el isCube) =
       [ (0, 80), (100 - 20 * sqrt 3, 80), (100, 60), (20 * sqrt 3, 60),
         (0, 20), (100 - 20 * sqrt 3, 20), (100, 0), (20 * sqrt 3, 0) ]
     \<and> list_all (\<lambda>v. 0 \<le> fst v \<and> fst v \<le> 100 \<and> 0 \<le> snd v \<and> snd v \<le> 80)
          (centeredVertices (width el) (height el) (requestedDepth el isCube))
     \<and> fst (generate3DRectangularShapes ext el isCube) = []"
    using h d inb w centeredVertices_100_80_40 by simp
qed

theorem box_100_80_40_within_bounds_witness:
  "(let el = sample_element\<lparr> etype := RectangularPrism,
               shape3d := Some \<lparr> depth = Some 40, rotationX = None, rotationY = None,
                                 rotationZ = None \<rparr> \<rparr>
    in (width el = 100 \<and> height el = 80 \<and> requestedDepth el False = 40) \<and>
       list_all (\<lambda>v. 0 \<le> fst v \<and> fst v \<le> 100 \<and> 0 \<le> snd v \<and> snd v \<le> 80)
         (centeredVertices (width el) (height el) (requestedDepth el False)) \<and>
       fst (generate3DRectangularShapes sample_externals el False) = [])"
proof -
  let ?s = "\<lparr> depth = Some 40, rotationX = None, rotationY = None, rotationZ = None \<rparr>"
  let ?el = "sample_element\<lparr> etype := RectangularPrism, shape3d := Some ?s \<rparr>"
  have pre: "width ?el = 100 \<and> height ?el = 80 \<and> shape3d ?el = Some ?s \<and> depth ?s = Some 40"
    by (simp add: sample_element_def)
  have d: "requestedDepth ?el False = 40"
    by (simp add: sample_element_def requestedDepth_def)
  note concl = mp [OF box_100_80_40_within_bounds [of ?el ?s False sample_externals] pre]
  show ?thesis
    unfolding Let_def using pre d concl by blast
qed

text \<open>
  Claim C2. For a box element whose background colour is set and not transparent, the
  list returned by \<open>generate3DRectangularShapes\<close> starts with the six face polygons
  and continues with the edge primitives, so every face precedes every edge. The six
  calls of \<open>unshift\<close> leave the faces in the order top, front, right, left, bottom,
  back: the reverse of the back-to-front order (back, bottom, left, right, front, top)
  that the claim and the comment in the source name.
\<close>

theorem faces_front_of_edges_top_first:
  "backgroundColor el \<noteq> [] \<and> \<not> isTransparent ext (backgroundColor el) \<longrightarrow>
     snd (generate3DRectangularShapes ext el isCube) =
       (let v = centeredVertices (width el) (height el) (requestedDepth el isCube)
        in [ topFace ext el v, frontFace ext el v, rightFace ext el v,
             leftFace ext el v, bottomFace ext el v, backFace ext el v ]
           @ edgeShapes3D ext el (requestedDepth el isCube))"
  by (simp add: generate3DRectangularShapes_def Let_def unshift_def)

theorem faces_front_of_edges_top_first_witness:
  "(let el = sample_element\<lparr> etype := Cube, backgroundColor := ''#ffc9c9'' \<rparr>;
        v = centeredVertices (width el) (height el) (requestedDepth el True)
    in take 6 (snd (generate3DRectangularShapes sample_externals el True)) =
         [ topFace sample_externals el v, frontFace sample_externals el v,
           rightFace sample_externals el v, leftFace sample_externals el v,
           bottomFace sample_externals el v, backFace sample_externals el v ])"
  using faces_front_of_edges_top_first
    [of "sample_element\<lparr> etype := Cube, backgroundColor := ''#ffc9c9'' \<rparr>" sample_externals True]
  by (simp add: sample_element_def sample_externals_def Let_def)

subsection \<open>Elbow path builder\<close>

text \<open>
  Claim C6. For every interior vertex \<open>v = points[i]\<close> of the polyline, the two inset
  points that \<open>generateElbowArrowShape\<close> emits around it (the end of the \<open>L\<close> command and
  the end of the \<open>Q\<close> command, whose control point is \<open>v\<close>) lie at distance \<open>|c|\<close>
  from \<open>v\<close>, where \<open>c = min(radius, distanceToNext / 2, distanceToPrev / 2)\<close>. With
  radius 16 and both adjacent segments at least 32 long, \<open>c = 16\<close>; when an adjacent
  segment has length 0 (and the radius and the other length are not negative), \<open>c = 0\<close>
  and both inset points are the vertex. \<open>pointDistance\<close> is a collaborator and stands
  for the length of a segment.
\<close>

theorem elbow_corner_inset:
  "1 \<le> i \<and> i + 1 < length pts \<longrightarrow>
   (let v = pts ! i;
        dNext = pointDistance ext v (pts ! (i + 1));
        dPrev = pointDistance ext v (pts ! (i - 1));
        c = min radius (min (dNext / 2) (dPrev / 2));
        sub = elbowSubpoints ext radius pts;
        a = sub ! (3 * (i - 1));
        b = sub ! (3 * (i - 1) + 2)
    in sub ! (3 * (i - 1) + 1) = v
       \<and> hypot (fst a - fst v) (snd a - snd v) = \<bar>c\<bar>
       \<and> hypot (fst b - fst v) (snd b - snd v) = \<bar>c\<bar>
       \<and> (\<exists>cmds. generateElbowArrowShape ext pts radius = Inr cmds
              \<and> cmds ! (2 * i - 1) = L (fst a) (snd a)
              \<and> cmds ! (2 * i) = Q (fst v) (snd v) (fst b) (snd b))
       \<and> (radius = 16 \<and> 32 \<le> dNext \<and> 32 \<le> dPrev \<longrightarrow> c = 16)
       \<and> (0 \<le> radius \<and> 0 \<le> dNext \<and> 0 \<le> dPrev \<and> (dNext = 0 \<or> dPrev = 0) \<longrightarrow>
            c = 0 \<and> a = v \<and> b = v))"
proof (intro impI)
  assume h: "1 \<le> i \<and> i + 1 < length pts"
  then have i1: "1 \<le> i" and i2: "i + 1 < length pts" by simp_all
  define v where "v = pts ! i"
  define c where "c = elbowCorner ext radius (pts ! (i - 1)) v (pts ! (i + 1))"
  define sub where "sub = elbowSubpoints ext radius pts"
  define tri where "tri = cornerSubpoints ext radius (pts ! (i - 1)) v (pts ! (i + 1))"
  have s0: "sub ! (3 * (i - 1)) = tri ! 0"
    using elbowSubpoints_nth [OF i1 i2, of 0 ext radius] by (simp add: sub_def tri_def v_def)
  have s1: "sub ! (3 * (i - 1) + 1) = tri ! 1"
    using elbowSubpoints_nth [OF i1 i2, of 1 ext radius] by (simp add: sub_def tri_def v_def)
  have s2: "sub ! (3 * (i - 1) + 2) = tri ! 2"
    using elbowSubpoints_nth [OF i1 i2, of 2 ext radius] by (simp add: sub_def tri_def v_def)
  have inset: "tri ! 1 = v"
      "hypot (fst (tri ! 0) - fst v) (snd (tri ! 0) - snd v) = \<bar>c\<bar>"
      "hypot (fst (tri ! 2) - fst v) (snd (tri ! 2) - snd v) = \<bar>c\<bar>"
    using cornerSubpoints_inset [of ext radius "pts ! (i - 1)" v "pts ! (i + 1)"]
    by (simp_all add: tri_def c_def)
  have len: "3 * (i - 1) + 2 < length sub"
    using i1 i2 by (simp add: sub_def length_elbowSubpoints)
  note cm = elbowCommands_nth [OF len]
  obtain p0 rest where pts: "pts = p0 # rest" using i2 by (cases pts) simp_all
  define cmds where
    "cmds = M (fst p0) (snd p0) # elbowCommands sub @ [L (fst (last pts)) (snd (last pts))]"
  have g: "generateElbowArrowShape ext pts radius = Inr cmds"
    by (simp add: generateElbowArrowShape_def pts cmds_def sub_def)
  have two: "2 * i - 1 = Suc (2 * (i - 1))" "2 * i = Suc (2 * (i - 1) + 1)"
    using i1 by simp_all
  have c1: "cmds ! (2 * i - 1) = L (fst (tri ! 0)) (snd (tri ! 0))"
    unfolding two cmds_def using cm s0 by (simp add: nth_append)
  have c2: "cmds ! (2 * i) = Q (fst v) (snd v) (fst (tri ! 2)) (snd (tri ! 2))"
    unfolding two cmds_def using cm s1 s2 inset(1) by (simp add: nth_append)
  have c16: "radius = 16 \<and> 32 \<le> pointDistance ext v (pts ! (i + 1)) \<and>
             32 \<le> pointDistance ext v (pts ! (i - 1)) \<longrightarrow> c = 16"
    by (auto simp: c_def elbowCorner_def min_def)
  have c0: "0 \<le> radius \<and> 0 \<le> pointDistance ext v (pts ! (i + 1)) \<and>
            0 \<le> pointDistance ext v (pts ! (i - 1)) \<and>
            (pointDistance ext v (pts ! (i + 1)) = 0 \<or> pointDistance ext v (pts ! (i - 1)) = 0)
            \<longrightarrow> c = 0"
    by (auto simp: c_def elbowCorner_def min_def)
  have z: "c = 0 \<longrightarrow> tri ! 0 = v \<and> tri ! 2 = v"
    using cornerSubpoints_zero [of ext radius "pts ! (i - 1)" v "pts ! (i + 1)"]
    by (simp add: tri_def c_def)
  have cdef: "c = min radius (min (pointDistance ext v (pts ! (i + 1)) / 2)
                                 (pointDistance ext v (pts ! (i - 1)) / 2))"
    by (simp add: c_def elbowCorner_def)
  show "(let v = pts ! i;
        dNext = pointDistance ext v (pts ! (i + 1));
        dPrev = pointDistance ext v (pts ! (i - 1));
        c = min radius (min (dNext / 2) (dPrev / 2));
        sub = elbowSubpoints ext radius pts;
        a = sub ! (3 * (i - 1));
        b = sub ! (3 * (i - 1) + 2)
    in sub ! (3 * (i - 1) + 1) = v
       \<and> hypot (fst a - fst v) (snd a - snd v) = \<bar>c\<bar>
       \<and> hypot (fst b - fst v) (snd b - snd v) = \<bar>c\<bar>
       \<and> (\<exists>cmds. generateElbowArrowShape ext pts radius = Inr cmds
              \<and> cmds ! (2 * i - 1) = L (fst a) (snd a)
              \<and> cmds ! (2 * i) = Q (fst v) (snd v) (fst b) (snd b))
       \<and> (radius = 16 \<and> 32 \<le> dNext \<and> 32 \<le> dPrev \<longrightarrow> c = 16)
       \<and> (0 \<le> radius \<and> 0 \<le> dNext \<and> 0 \<le> dPrev \<and> (dNext = 0 \<or> dPrev = 0) \<longrightarrow>
            c = 0 \<and> a = v \<and> b = v))"
    unfolding Let_def v_def [symmetric] sub_def [symmetric] cdef [symmetric] s0 s1 s2
    using inset g c1 c2 c16 c0 z by blast
qed

theorem elbow_corner_inset_witness:
  "generateElbowArrowShape sample_externals [(0, 0), (100, 0), (100, 100)] 16 =
     Inr [M 0 0, L 84 0, Q 100 0 100 16, L 100 100]
   \<and> generateElbowArrowShape sample_externals [(0, 0), (100, 0), (100, 0)] 16 =
     Inr [M 0 0, L 100 0, Q 100 0 100 0, L 100 0]"
  using elbow_corner_inset [of 1 "[(0, 0), (100, 0), (100, 100)]" sample_externals 16]
        elbow_corner_inset [of 1 "[(0, 0), (100, 0), (100, 0)]" sample_externals 16]
  by (simp add: generateElbowArrowShape_def elbowSubpoints_def cornerSubpoints_def
        elbowCorner_def sample_externals_def hypot_zero_right hypot_zero_left Let_def)

subsection \<open>Polygon toggle\<close>

text \<open>
  Claim C7. \<open>toggleLinePolygonState\<close> with \<open>nextPolygonState = true\<close> returns \<open>null\<close>
  exactly when \<open>canBecomePolygon\<close> rejects the points. When it accepts them (a sequence
  that is not empty: the source reads its first point), the result is not \<open>null\<close>, and
  its point array is the input with a copy of the first point appended (one point
  longer) when the first and last points are further apart than the merge distance or
  there are fewer than 4 points, and otherwise the input with its last point replaced
  by a copy of the first (same length).
\<close>

theorem toggle_to_polygon:
  "pa < length mem \<longrightarrow>
   ((snd (toggleLinePolygonState ext mem pa True) = Inr None) =
      (\<not> canBecomePolygon ext (mem ! pa)))
   \<and> (canBecomePolygon ext (mem ! pa) \<and> mem ! pa \<noteq> [] \<longrightarrow>
       (let pts = mem ! pa;
            firstPoint = hd pts;
            lastPoint = last pts;
            distance = hypot (fst firstPoint - fst lastPoint) (snd firstPoint - snd lastPoint);
            mem' = fst (toggleLinePolygonState ext mem pa True)
        in snd (toggleLinePolygonState ext mem pa True) =
             Inr (Some \<lparr> polygon = True, points_at = length mem \<rparr>)
           \<and> (if distance > LINE_POLYGON_POINT_MERGE_DISTANCE ext \<or> length pts < 4
              then mem' ! length mem = pts @ [firstPoint]
                   \<and> length (mem' ! length mem) = length pts + 1
              else mem' ! length mem = butlast pts @ [firstPoint]
                   \<and> length (mem' ! length mem) = length pts)))"
  (is "_ \<longrightarrow> ?iff \<and> (?pre \<longrightarrow> ?acc)")
proof (intro impI)
  assume pa: "pa < length mem"
  have iff: ?iff
  proof (cases "canBecomePolygon ext (mem ! pa)")
    case False
    then show ?thesis using toggle_true_reject [OF pa] by simp
  next
    case True
    show ?thesis
    proof (cases "mem ! pa = []")
      case True
      with \<open>canBecomePolygon ext (mem ! pa)\<close> show ?thesis
        using toggle_true_empty [OF pa] by simp
    next
      case False
      with \<open>canBecomePolygon ext (mem ! pa)\<close> show ?thesis
        using toggle_true_accept [OF pa] by simp
    qed
  qed
  have acc: "?pre \<longrightarrow> ?acc"
  proof (intro impI)
    assume a: ?pre
    then have ne: "mem ! pa \<noteq> []" by simp
    then have lb: "Suc (length (mem ! pa) - 1) = length (mem ! pa)"
      by (cases "mem ! pa") simp_all
    from a toggle_true_accept [OF pa, of ext] show ?acc
      using lb by (simp add: Let_def)
  qed
  from iff acc show "?iff \<and> (?pre \<longrightarrow> ?acc)"
    by (rule conjI)
qed

theorem toggle_to_polygon_witness:
  "toggleLinePolygonState sample_externals [[(0, 0), (100, 0), (100, 100)]] 0 True =
     ([[(0, 0), (100, 0), (100, 100)], [(0, 0), (100, 0), (100, 100), (0, 0)]],
      Inr (Some \<lparr> polygon = True, points_at = 1 \<rparr>))
   \<and> toggleLinePolygonState sample_externals
        [[(0, 0), (100, 0), (100, 100), (0, 100), (0, 5)]] 0 True =
     ([[(0, 0), (100, 0), (100, 100), (0, 100), (0, 5)],
       [(0, 0), (100, 0), (100, 100), (0, 100), (0, 0)]],
      Inr (Some \<lparr> polygon = True, points_at = 1 \<rparr>))
   \<and> toggleLinePolygonState sample_externals [[(0, 0), (100, 0), (0, 0)]] 0 True =
     ([[(0, 0), (100, 0), (0, 0)], [(0, 0), (100, 0), (0, 0)]], Inr None)"
  using toggle_to_polygon [of 0 "[[(0, 0), (100, 0), (100, 100)]]" sample_externals]
        toggle_to_polygon [of 0 "[[(0, 0), (100, 0), (100, 100), (0, 100), (0, 5)]]"
          sample_externals]
        toggle_to_polygon [of 0 "[[(0, 0), (100, 0), (0, 0)]]" sample_externals]
  by (simp add: toggleLinePolygonState_def alloc_def sample_externals_def Let_def
        hypot_zero_left hypot_zero_right hypot_def)

text \<open>
  Claim C10. \<open>toggleLinePolygonState\<close> leaves every array that was in memory before
  the call as it was, the array \<open>element.points\<close> among them: it writes only to the
  copy it allocates. With \<open>nextPolygonState = false\<close> the result is not \<open>null\<close>, its
  \<open>polygon\<close> field is false, and its point array is a new array with the elements of
  \<open>element.points\<close>.
\<close>

theorem toggle_keeps_input_points:
  "pa < length mem \<longrightarrow>
     take (length mem) (fst (toggleLinePolygonState ext mem pa nextPolygonState)) = mem
     \<and> fst (toggleLinePolygonState ext mem pa nextPolygonState) ! pa = mem ! pa
     \<and> toggleLinePolygonState ext mem pa False =
         (mem @ [mem ! pa], Inr (Some \<lparr> polygon = False, points_at = length mem \<rparr>))
     \<and> fst (toggleLinePolygonState ext mem pa False) ! length mem = mem ! pa
     \<and> length mem \<noteq> pa"
proof (intro impI)
  assume pa: "pa < length mem"
  have ex: "\<exists>x. fst (toggleLinePolygonState ext mem pa nextPolygonState) = mem @ [x]"
  proof (cases nextPolygonState)
    case False
    then show ?thesis by (simp add: toggle_false)
  next
    case True
    then show ?thesis
      using toggle_true_reject [OF pa, of ext] toggle_true_empty [OF pa, of ext]
            toggle_true_accept [OF pa, of ext]
      by (cases "canBecomePolygon ext (mem ! pa)"; cases "mem ! pa = []") auto
  qed
  then obtain x where x: "fst (toggleLinePolygonState ext mem pa nextPolygonState) = mem @ [x]"
    by blast
  show "take (length mem) (fst (toggleLinePolygonState ext mem pa nextPolygonState)) = mem
     \<and> fst (toggleLinePolygonState ext mem pa nextPolygonState) ! pa = mem ! pa
     \<and> toggleLinePolygonState ext mem pa False =
         (mem @ [mem ! pa], Inr (Some \<lparr> polygon = False, points_at = length mem \<rparr>))
     \<and> fst (toggleLinePolygonState ext mem pa False) ! length mem = mem ! pa
     \<and> length mem \<noteq> pa"
    using pa x by (simp add: toggle_false nth_append)
qed

theorem toggle_keeps_input_points_witness:
  "toggleLinePolygonState sample_externals [[(0, 0), (100, 0), (100, 100), (0, 100)]] 0 False =
     ([[(0, 0), (100, 0), (100, 100), (0, 100)], [(0, 0), (100, 0), (100, 100), (0, 100)]],
      Inr (Some \<lparr> polygon = False, points_at = 1 \<rparr>))
   \<and> fst (toggleLinePolygonState sample_externals
            [[(0, 0), (100, 0), (100, 100), (0, 100)]] 0 True) ! 0 =
       [(0, 0), (100, 0), (100, 100), (0, 100)]"
  using toggle_keeps_input_points
          [of 0 "[[(0, 0), (100, 0), (100, 100), (0, 100)]]" sample_externals False]
        toggle_keeps_input_points
          [of 0 "[[(0, 0), (100, 0), (100, 100), (0, 100)]]" sample_externals True]
  by simp

subsection \<open>Shape cache\<close>

text \<open>
  Claim C1. With a render context whose \<open>isExporting\<close> is true,
  \<open>ShapeCache.generateElementShape\<close> calls the generator, whatever the cache holds for
  the element, and returns what the generator returns. With a context that is not
  exporting, or with \<open>null\<close>, an entry cached for the element (the \<open>null\<close> marker
  included) is returned and the whole state is left as it was: the generator is not
  called.
\<close>

theorem cache_export_regenerates_else_cached:
  "(isExporting c \<longrightarrow>
      generated (fst (ShapeCache_generateElementShape ext s r (Some c))) =
        generated s @ [(r, c)]
      \<and> snd (ShapeCache_generateElementShape ext s r (Some c)) =
          snd (snd (generateElementShape ext (objects s) r c)))
   \<and> (\<not> isExporting c \<and> cache s r = Some shape \<longrightarrow>
        ShapeCache_generateElementShape ext s r (Some c) = (s, Inr shape))
   \<and> (cache s r = Some shape \<longrightarrow>
        ShapeCache_generateElementShape ext s r None = (s, Inr shape))"
  by (simp add: ShapeCache_generateElementShape_def ShapeCache_get_def ShapeCache_set_def
        Let_def split: prod.splits sum.splits)

theorem cache_export_regenerates_else_cached_witness:
  "generated (fst (ShapeCache_generateElementShape sample_externals sample_state 0
                     (Some sample_config))) = [(0, sample_config)]
   \<and> snd (ShapeCache_generateElementShape sample_externals sample_state 0
            (Some sample_config)) = Inr Shape_null
   \<and> ShapeCache_generateElementShape sample_externals sample_state 0
        (Some (sample_config\<lparr> isExporting := False \<rparr>)) = (sample_state, Inr Shape_null)
   \<and> ShapeCache_generateElementShape sample_externals sample_state 0 None =
        (sample_state, Inr Shape_null)"
  using cache_export_regenerates_else_cached
          [of sample_config sample_externals sample_state 0 Shape_null]
        cache_export_regenerates_else_cached
          [of "sample_config\<lparr> isExporting := False \<rparr>" sample_externals sample_state 0
              Shape_null]
  by (simp add: sample_state_def sample_config_def generateElementShape_def
        sample_element_def Let_def)

subsection \<open>Shape generator\<close>

text \<open>
  Claim C4. For a line or arrow that \<open>isElbowArrow\<close> accepts and whose points hold a
  coordinate of absolute value above 1,000,000, \<open>generateElementShape\<close> throws nothing,
  writes the diagnostic to the console, and the body of the arrow is the empty list:
  the result holds nothing but what the arrowhead step adds to an empty body. When
  \<open>getArrowheadPoints\<close> resolves no arrowhead for an empty body, the result is the
  empty list.
\<close>

theorem elbow_extreme_points_render_empty:
  "(etype (st ! r) = Line \<or> etype (st ! r) = Arrow) \<and> isElbowArrow ext (st ! r) \<and>
   (\<exists>p \<in> set (points (st ! r)). \<bar>fst p\<bar> > 1000000 \<or> \<bar>snd p\<bar> > 1000000) \<longrightarrow>
   (\<exists>opts. generateRoughOptions ext (st ! r) False = Inr opts
      \<and> linearBody ext (st ! r) opts =
          ([Elbow_extreme (elem_id (st ! r)) (points (st ! r))], Inr [])
      \<and> generateElementShape ext st r cfg =
          (st, [Elbow_extreme (elem_id (st ! r)) (points (st ! r))],
           Inr (Shape_list
                  (withArrowheads ext (st ! r) opts (canvasBackgroundColor cfg) []))))
   \<and> ((\<forall>pos ah. getArrowheadPoints ext (st ! r) [] pos ah = None) \<longrightarrow>
        snd (snd (generateElementShape ext st r cfg)) = Inr (Shape_list []))"
  (is "?pre \<longrightarrow> ?A \<and> (?none \<longrightarrow> ?B)")
proof (intro impI)
  assume pre: ?pre
  then have t: "etype (st ! r) = Line \<or> etype (st ! r) = Arrow"
    and e: "isElbowArrow ext (st ! r)"
    and x: "\<exists>p \<in> set (points (st ! r)). \<bar>fst p\<bar> > 1000000 \<or> \<bar>snd p\<bar> > 1000000"
    by blast+
  from generateRoughOptions_linear [OF t] obtain opts
    where o: "generateRoughOptions ext (st ! r) False = Inr opts" by blast
  note lb = linearBody_extreme [OF e x, of opts]
  have g: "generateElementShape ext st r cfg =
          (st, [Elbow_extreme (elem_id (st ! r)) (points (st ! r))],
           Inr (Shape_list
                  (withArrowheads ext (st ! r) opts (canvasBackgroundColor cfg) [])))"
    using t o lb by (auto simp: generateElementShape_def Let_def)
  have A: ?A using o lb g by blast
  have B: "?none \<longrightarrow> ?B"
  proof
    assume ?none
    then have "withArrowheads ext (st ! r) opts (canvasBackgroundColor cfg) [] = []"
      by (intro withArrowheads_none) simp
    then show ?B using g by simp
  qed
  from A B show "?A \<and> (?none \<longrightarrow> ?B)" by (rule conjI)
qed

theorem elbow_extreme_points_render_empty_witness:
  "generateElementShape sample_externals
     [sample_element\<lparr> etype := Arrow, points := [(0, 0), (2000000, 0)],
        endArrowhead := Some (Some Head_arrow) \<rparr>] 0 sample_config =
     ([sample_element\<lparr> etype := Arrow, points := [(0, 0), (2000000, 0)],
         endArrowhead := Some (Some Head_arrow) \<rparr>],
      [Elbow_extreme ''e1'' [(0, 0), (2000000, 0)]],
      Inr (Shape_list []))"
proof -
  let ?el = "sample_element\<lparr> etype := Arrow, points := [(0, 0), (2000000, 0)],
        endArrowhead := Some (Some Head_arrow) \<rparr>"
  have none: "\<forall>pos ah. getArrowheadPoints sample_externals ([?el] ! 0) [] pos ah = None"
    by (simp add: sample_externals_def)
  have pre: "(etype ([?el] ! 0) = Line \<or> etype ([?el] ! 0) = Arrow) \<and>
     isElbowArrow sample_externals ([?el] ! 0) \<and>
     (\<exists>p \<in> set (points ([?el] ! 0)). \<bar>fst p\<bar> > 1000000 \<or> \<bar>snd p\<bar> > 1000000)"
    by (simp add: sample_externals_def sample_element_def)
  note th = mp [OF elbow_extreme_points_render_empty [of "[?el]" 0 sample_externals sample_config] pre]
  from th none have "snd (snd (generateElementShape sample_externals [?el] 0 sample_config)) =
      Inr (Shape_list [])" by blast
  moreover from th have "fst (generateElementShape sample_externals [?el] 0 sample_config) = [?el]"
    and "fst (snd (generateElementShape sample_externals [?el] 0 sample_config)) =
      [Elbow_extreme (elem_id ([?el] ! 0)) (points ([?el] ! 0))]"
    by auto
  ultimately show ?thesis
    by (cases "generateElementShape sample_externals [?el] 0 sample_config")
       (simp add: sample_element_def)
qed

subsection \<open>Arrowhead geometry\<close>

text \<open>
  Claim C5, as stated, fails. For the kind \<open>crowfoot_one\<close> the options object is the
  same after the call as before it: the options that \<open>generateRoughOptions\<close> builds for
  a dashed arrow of roughness 2 still hold the dash pattern \<open>[8, 10]\<close> and the roughness
  2 after \<open>getArrowheadShapes\<close> has resolved a \<open>crowfoot_one\<close> head, and the line it
  draws carries these options. For the kind \<open>dot\<close> the dash pattern is removed, and the
  roughness field of the object is still 2 after the call.
\<close>

theorem arrowhead_crowfoot_one_keeps_options:
  "generateRoughOptions sample_externals sample_arrow False = Inr sample_options
   \<and> getArrowheadShapes sample_externals sample_arrow
        [Gen_curve [(0, 0), (100, 0)] sample_options] End Head_crowfoot_one sample_options
        ''#ffffff'' = (sample_options, [Gen_line 1 1 2 2 sample_options])
   \<and> o_strokeLineDash sample_options = Some [8, 10]
   \<and> o_roughness sample_options = Some 2
   \<and> o_roughness (fst (getArrowheadShapes sample_externals sample_arrow
        [Gen_curve [(0, 0), (100, 0)] sample_options] End Head_dot sample_options
        ''#ffffff'')) = Some 2"
proof (intro conjI)
  show "generateRoughOptions sample_externals sample_arrow False = Inr sample_options"
    by (rule sample_options_built)
  show "getArrowheadShapes sample_externals sample_arrow
        [Gen_curve [(0, 0), (100, 0)] sample_options] End Head_crowfoot_one sample_options
        ''#ffffff'' = (sample_options, [Gen_line 1 1 2 2 sample_options])"
    by (simp add: getArrowheadShapes_def generateCrowfootOne_def sample_externals_def)
  show "o_strokeLineDash sample_options = Some [8, 10]"
    by (simp add: sample_options_def)
  show "o_roughness sample_options = Some 2"
    by (simp add: sample_options_def)
  show "o_roughness (fst (getArrowheadShapes sample_externals sample_arrow
        [Gen_curve [(0, 0), (100, 0)] sample_options] End Head_dot sample_options
        ''#ffffff'')) = Some 2"
    by (simp add: getArrowheadShapes_def sample_externals_def Let_def)
       (simp add: sample_options_def)
qed

text \<open>
  Claim C5, amended. The options object after \<open>getArrowheadShapes\<close> is: unchanged when
  no arrowhead points resolve and for \<open>crowfoot_one\<close>; with the dash pattern removed and
  nothing else changed for the dot, circle, triangle and diamond kinds (their clamp of
  the roughness, to 0.5 for dot and circle and to 1 for triangle and diamond, is made
  in the copy handed to the generator); with the dash pattern removed (replaced by the
  tightened dot pattern for a dotted stroke) and the roughness clamped to at most 1 for
  the wing kinds (bar, arrow, crowfoot_many, crowfoot_one_or_many). The second part
  states the options of the drawables that the call returns.
\<close>

theorem arrowhead_options_after_call:
  "fst (getArrowheadShapes ext el shape pos ah opts cbg) =
     (if getArrowheadPoints ext el shape pos ah = None \<or> ah = Head_crowfoot_one then opts
      else if ah = Head_dot \<or> ah = Head_circle \<or> ah = Head_circle_outline \<or>
              ah = Head_triangle \<or> ah = Head_triangle_outline \<or>
              ah = Head_diamond \<or> ah = Head_diamond_outline
      then opts\<lparr> o_strokeLineDash := None \<rparr>
      else opts\<lparr> o_strokeLineDash :=
                   (if strokeStyle el = Dotted then Some [1.5, 6 + (strokeWidth el - 1) - 1]
                    else None),
                 o_roughness := Some (min 1 (roughnessOrZero opts)) \<rparr>)
   \<and> list_all
       (\<lambda>d. if ah = Head_crowfoot_one then drawableOptions d = opts
            else if ah = Head_dot \<or> ah = Head_circle \<or> ah = Head_circle_outline
            then o_strokeLineDash (drawableOptions d) = None \<and>
                 o_roughness (drawableOptions d) = Some (min 0.5 (roughnessOrZero opts))
            else if ah = Head_triangle \<or> ah = Head_triangle_outline \<or>
                    ah = Head_diamond \<or> ah = Head_diamond_outline
            then o_strokeLineDash (drawableOptions d) = None \<and>
                 o_roughness (drawableOptions d) = Some (min 1 (roughnessOrZero opts))
            else o_strokeLineDash (drawableOptions d) =
                   (if strokeStyle el = Dotted then Some [1.5, 6 + (strokeWidth el - 1) - 1]
                    else None) \<and>
                 o_roughness (drawableOptions d) = Some (min 1 (roughnessOrZero opts)))
       (snd (getArrowheadShapes ext el shape pos ah opts cbg))"
proof (cases "getArrowheadPoints ext el shape pos ah")
  case None
  then show ?thesis by (simp add: getArrowheadShapes_def)
next
  case (Some ps)
  then show ?thesis
    by (cases ah)
       (simp_all add: getArrowheadShapes_def generateCrowfootOne_def Let_def
          roughnessOrZero_def getDashArrayDotted_def split: option.splits)
qed

theorem arrowhead_options_after_call_witness:
  "fst (getArrowheadShapes sample_externals sample_arrow
          [Gen_curve [(0, 0), (100, 0)] sample_options] End Head_arrow sample_options
          ''#ffffff'') =
     sample_options\<lparr> o_strokeLineDash := None, o_roughness := Some 1 \<rparr>
   \<and> fst (getArrowheadShapes sample_externals sample_arrow
          [Gen_curve [(0, 0), (100, 0)] sample_options] End Head_dot sample_options
          ''#ffffff'') =
     sample_options\<lparr> o_strokeLineDash := None \<rparr>"
  using arrowhead_options_after_call
          [of sample_externals sample_arrow "[Gen_curve [(0, 0), (100, 0)] sample_options]"
              End Head_arrow sample_options "''#ffffff''"]
        arrowhead_options_after_call
          [of sample_externals sample_arrow "[Gen_curve [(0, 0), (100, 0)] sample_options]"
              End Head_dot sample_options "''#ffffff''"]
  by (simp add: sample_externals_def sample_arrow_def sample_element_def
        roughnessOrZero_def sample_options_def)

subsection \<open>Iframe-like substitution\<close>

text \<open>
  Claim C9. For an iframe or embeddable element, \<open>generateElementShape\<close> changes no
  object that was in the store before the call: the element keeps its \<open>strokeColor\<close>,
  \<open>backgroundColor\<close>, \<open>fillStyle\<close> and \<open>roughness\<close>, as every other field. The
  substituted values are those of the object that \<open>modifyIframeLikeForRoughOptions\<close>
  returns (a new object when it substitutes), and the options of the generated
  primitive are the ones \<open>generateRoughOptions\<close> builds from that object.
\<close>

theorem iframe_substitution_keeps_element:
  "r < length st \<and> (etype (st ! r) = Iframe \<or> etype (st ! r) = Embeddable) \<longrightarrow>
   (let el = st ! r;
        st1 = fst (modifyIframeLikeForRoughOptions ext st r (isExporting cfg)
                     (embedsValidationStatus cfg));
        r1 = snd (modifyIframeLikeForRoughOptions ext st r (isExporting cfg)
                    (embedsValidationStatus cfg));
        fed = (if isIframeLikeElement ext el \<and>
                  (isExporting cfg \<or>
                   (isEmbeddableElement ext el \<and>
                    (case embedsValidationStatus cfg of None \<Rightarrow> None
                     | Some m \<Rightarrow> m (elem_id el)) \<noteq> Some True)) \<and>
                  isTransparent ext (backgroundColor el) \<and> isTransparent ext (strokeColor el)
               then el\<lparr> roughness := 0, backgroundColor := ''#d3d3d3'',
                         fillStyle := ''solid'' \<rparr>
               else if isIframeElement ext el
               then el\<lparr> strokeColor := (if isTransparent ext (strokeColor el)
                                         then ''#000000'' else strokeColor el),
                         backgroundColor := (if isTransparent ext (backgroundColor el)
                                             then ''#f4f4f6'' else backgroundColor el) \<rparr>
               else el)
    in fst (generateElementShape ext st r cfg) = st1
       \<and> take (length st) st1 = st
       \<and> st1 ! r = el
       \<and> st1 ! r1 = fed
       \<and> (\<exists>opts. generateRoughOptions ext fed (roundness el \<noteq> None) = Inr opts
             \<and> snd (snd (generateElementShape ext st r cfg)) =
                 Inr (Shape_one
                   (if roundness el \<noteq> None
                    then Gen_path (roundedRectPath (width el) (height el)
                           (getCornerRadius ext (min (width el) (height el)) el)) opts
                    else Gen_rectangle 0 0 (width el) (height el) opts))))"
  (is "?pre \<longrightarrow> ?concl")
proof (intro impI)
  assume pre: ?pre
  then have r: "r < length st"
    and t: "etype (st ! r) = Rectangle \<or> etype (st ! r) = Iframe \<or> etype (st ! r) = Embeddable"
    by auto
  obtain st1 r1 where m:
    "modifyIframeLikeForRoughOptions ext st r (isExporting cfg) (embedsValidationStatus cfg)
       = (st1, r1)"
    by (cases "modifyIframeLikeForRoughOptions ext st r (isExporting cfg)
                 (embedsValidationStatus cfg)") blast
  from modify_store [of ext st r "isExporting cfg" "embedsValidationStatus cfg"] m
  obtain xs where xs: "st1 = st @ xs" by auto
  have keep: "take (length st) st1 = st" "st1 ! r = st ! r"
    using xs r by (simp_all add: nth_append)
  have ty: "etype (st1 ! r1) = etype (st ! r)"
    using modify_etype [OF r, of ext "isExporting cfg" "embedsValidationStatus cfg"] m by simp
  note val = modify_value [OF r, of ext "isExporting cfg" "embedsValidationStatus cfg",
      unfolded m fst_conv snd_conv]
  from generateRoughOptions_rect [of "st1 ! r1" ext "roundness (st ! r) \<noteq> None"] t ty
  obtain opts where o: "generateRoughOptions ext (st1 ! r1) (roundness (st ! r) \<noteq> None) = Inr opts"
    by auto
  note g = generateElementShape_rect [OF t m o]
  show ?concl
    unfolding Let_def m fst_conv snd_conv val [symmetric]
    using keep o g by auto
qed

theorem iframe_substitution_keeps_element_witness:
  "generateElementShape sample_externals
     [sample_element\<lparr> etype := Embeddable, strokeColor := ''transparent'' \<rparr>] 0 sample_config =
   ([sample_element\<lparr> etype := Embeddable, strokeColor := ''transparent'' \<rparr>,
     sample_element\<lparr> etype := Embeddable, strokeColor := ''transparent'', roughness := 0,
       backgroundColor := ''#d3d3d3'', fillStyle := ''solid'' \<rparr>],
    [],
    Inr (Shape_one (Gen_rectangle 0 0 100 80
      \<lparr> o_seed = Some 7, o_strokeLineDash = None, o_disableMultiStroke = Some False,
        o_disableMultiStrokeFill = None, o_strokeWidth = Some 2, o_fillWeight = Some 1,
        o_hachureGap = Some 8, o_roughness = Some 0, o_stroke = Some ''transparent'',
        o_preserveVertices = Some True, o_fillStyle = Some ''solid'',
        o_fill = Some ''#d3d3d3'', o_curveFitting = None \<rparr>)))"
  using iframe_substitution_keeps_element
    [of 0 "[sample_element\<lparr> etype := Embeddable, strokeColor := ''transparent'' \<rparr>]"
        sample_externals sample_config]
  by (simp add: generateElementShape_def modifyIframeLikeForRoughOptions_def alloc_def
        generateRoughOptions_def adjustRoughness_def sample_externals_def sample_element_def
        sample_config_def Let_def)

end
